theory Spec2Isabelle
  imports Main
begin

section \<open>The single-file component compiler (lib/compiler.js)\<close>

text \<open>
  A shallow embedding of \<^verbatim>\<open>lib/compiler.js\<close>. A compilation is a function of the
  document, the file path, the process-wide cache and the external collaborators of the
  module (file system, compiler registry, template translator, style rewriter); it returns
  what the callback receives, the new cache and the trace of the effects it performed.
\<close>

subsection \<open>JavaScript values and errors\<close>

text \<open>
  The values that part contents, language tags and resolved scripts take in the module:
  \<^verbatim>\<open>undefined\<close>, \<^verbatim>\<open>null\<close> or a string. HOL equality on them is \<^verbatim>\<open>===\<close>.
\<close>

datatype jsval = Undefined | Null | Str string

fun truthy :: \<open>jsval \<Rightarrow> bool\<close> where
  \<open>truthy (Str s) = (s \<noteq> [])\<close>
| \<open>truthy _ = False\<close>

text \<open>The key under which \<^verbatim>\<open>obj[v]\<close> looks a value up.\<close>

fun propertyKey :: \<open>jsval \<Rightarrow> string\<close> where
  \<open>propertyKey Undefined = ''undefined''\<close>
| \<open>propertyKey Null = ''null''\<close>
| \<open>propertyKey (Str s) = s\<close>

text \<open>
  Errors: a \<^verbatim>\<open>TypeError\<close> raised by the module's own code (with the expression that
  raised it), or an error value handed over by an external collaborator, which may carry
  a \<^verbatim>\<open>codeFrame\<close>.
\<close>

datatype jserror = TypeError string | ExternalError string \<open>string option\<close>

fun codeFrame :: \<open>jserror \<Rightarrow> string option\<close> where
  \<open>codeFrame (ExternalError msg cf) = cf\<close>
| \<open>codeFrame (TypeError msg) = None\<close>

definition NL :: string where
  \<open>NL = [CHR 0x0A]\<close>

text \<open>\<^verbatim>\<open>s.split(/\r?\n/g)\<close>: the lines of a text, broken at LF or CR LF.\<close>

fun split_lines :: \<open>string \<Rightarrow> string list\<close> where
  \<open>split_lines [] = [[]]\<close>
| \<open>split_lines (c # cs) =
     (if c = CHR 0x0A then [] # split_lines cs
      else if c = CHR 0x0D \<and> cs \<noteq> [] \<and> hd cs = CHR 0x0A then [] # split_lines (tl cs)
      else (case split_lines cs of l # ls \<Rightarrow> (c # l) # ls | [] \<Rightarrow> [[c]]))\<close>

text \<open>\<^verbatim>\<open>xs.join(sep)\<close> on an array of strings.\<close>

fun join :: \<open>string \<Rightarrow> string list \<Rightarrow> string\<close> where
  \<open>join sep [] = []\<close>
| \<open>join sep [x] = x\<close>
| \<open>join sep (x # y # ys) = x @ sep @ join sep (y # ys)\<close>

text \<open>\<^verbatim>\<open>s.trim()\<close>, on the white space and line terminators of the Latin-1 range.\<close>

definition isWhiteSpace :: \<open>char \<Rightarrow> bool\<close> where
  \<open>isWhiteSpace c = (c \<in> {CHR 0x09, CHR 0x0A, CHR 0x0B, CHR 0x0C, CHR 0x0D, CHR 0x20, CHR 0xA0})\<close>

definition trim :: \<open>string \<Rightarrow> string\<close> where
  \<open>trim s = rev (dropWhile isWhiteSpace (rev (dropWhile isWhiteSpace s)))\<close>

subsection \<open>Promises\<close>

text \<open>
  The state a promise ends in: pending for ever, or settled at a logical time. Only the
  order of the times matters. Times are counted in half turns of the event loop: the
  callback of an external call that fires in turn \<open>t\<close> settles its promise at time
  \<open>2 * t\<close>; what is settled through one more asynchronous call within a turn (the style
  rewriter) is settled after everything that the callbacks of that turn settle directly,
  at the odd time that follows.
\<close>

datatype 'a promise = Pending | Rejected nat jserror | Fulfilled nat 'a

subsection \<open>Parts of a document\<close>

text \<open>
  A block of the parsed document as the module reads it: \<^verbatim>\<open>part.lang\<close>,
  \<^verbatim>\<open>part.src\<close> (\<open>None\<close> when the attribute is absent), \<^verbatim>\<open>part.content\<close>,
  \<^verbatim>\<open>part.scoped\<close> and \<^verbatim>\<open>part.start\<close>.
\<close>

record part =
  lang :: \<open>string option\<close>
  src :: \<open>string option\<close>
  content :: string
  scoped :: bool
  start :: nat

text \<open>The descriptor returned by \<^verbatim>\<open>vueCompiler.parseComponent\<close>; \<open>None\<close> is \<^verbatim>\<open>null\<close>.\<close>

record parts =
  template :: \<open>part option\<close>
  script :: \<open>part option\<close>
  styles :: \<open>part list\<close>

text \<open>A value \<^verbatim>\<open>v\<close> of an optional attribute as a JavaScript value.\<close>

fun attr :: \<open>string option \<Rightarrow> jsval\<close> where
  \<open>attr None = Undefined\<close>
| \<open>attr (Some s) = Str s\<close>

subsection \<open>Results of the registry and of the template translator\<close>

text \<open>
  What a registry transform hands to its callback as \<^verbatim>\<open>res\<close>: a plain value (a string
  by contract) or an object with the properties \<^verbatim>\<open>code\<close> and \<^verbatim>\<open>map\<close>. An incoming
  source map is represented by the lookup it supports,
  \<^verbatim>\<open>originalPositionFor({line: ln, column: 0}).line\<close>, where \<open>None\<close> is \<^verbatim>\<open>null\<close>.
\<close>

type_synonym inMap = \<open>nat \<rightharpoonup> nat\<close>

datatype result = Plain jsval | CodeMap jsval \<open>inMap option\<close>

text \<open>
  What a transform does when it is called with \<^verbatim>\<open>(source, cb, compiler, filePath)\<close>:
  it never calls \<^verbatim>\<open>cb\<close>, or throws before returning, or calls \<^verbatim>\<open>cb\<close> at some
  time with \<^verbatim>\<open>(err, res)\<close>, where \<open>None\<close> is a falsy \<^verbatim>\<open>err\<close>. What a
  transform or a listener does on the emitter is outside the model.
\<close>

datatype called = NeverCalls | Throws jserror | Calls nat \<open>jserror option\<close> result

type_synonym transform = \<open>jsval \<Rightarrow> string \<Rightarrow> called\<close>

text \<open>
  The object returned by the template translator. Objects are compared by identity, so
  the object carries its reference; \<^verbatim>\<open>a === b\<close> on two objects compares the references.
\<close>

record templateObj =
  ref :: nat
  render :: string
  staticRenderFns :: string

text \<open>The value of \<^verbatim>\<open>x.template\<close> for \<^verbatim>\<open>x\<close> the resolved parts or the empty object.\<close>

datatype templateVal = TUndefined | TNull | TObj templateObj

fun strictEq :: \<open>templateVal \<Rightarrow> templateVal \<Rightarrow> bool\<close> where
  \<open>strictEq TUndefined TUndefined = True\<close>
| \<open>strictEq TNull TNull = True\<close>
| \<open>strictEq (TObj a) (TObj b) = (ref a = ref b)\<close>
| \<open>strictEq _ _ = False\<close>

subsection \<open>Source maps\<close>

text \<open>
  A mapping added with \<^verbatim>\<open>map.addMapping\<close>: the source name and the generated and
  original lines (both columns are always 0). The generator keeps the source contents set
  on it, the mappings in the order they were added and \<^verbatim>\<open>_hashedFilename\<close>.
\<close>

record mapping =
  sourceFile :: string
  generated :: nat
  original :: nat

record sourceMapGenerator =
  sourcesContent :: \<open>(string \<times> string) list\<close>
  mappings :: \<open>mapping list\<close>
  hashedFilename :: string

subsection \<open>Module state and collaborators\<close>

text \<open>\<^verbatim>\<open>compiler.options\<close>, as far as the module reads it.\<close>

record options =
  sourceMap :: bool
  extractCSS :: bool

text \<open>The switches read from \<^verbatim>\<open>process.env\<close> at the start of a compilation.\<close>

record env =
  isProduction :: bool
  isServer :: bool
  isTest :: bool

text \<open>
  What is fixed when the module is loaded: the two script paths, whether
  \<^verbatim>\<open>babel-core\<close> could be required, and the pure library functions the module calls
  (\<^verbatim>\<open>genId\<close>, \<^verbatim>\<open>vueCompiler.parseComponent\<close> with \<^verbatim>\<open>pad: true\<close>,
  \<^verbatim>\<open>path.resolve(path.dirname(filePath), src)\<close>, \<^verbatim>\<open>path.basename\<close>, \<^verbatim>\<open>hash\<close>,
  \<^verbatim>\<open>JSON.stringify\<close>, \<^verbatim>\<open>chalk.red\<close> and
  \<^verbatim>\<open>convert.fromJSON(map.toString()).toComment()\<close>). They are parameters of the model.
\<close>

text \<open>
  Modelled from the spec: \<^verbatim>\<open>./gen-id\<close> is not among the sources. The spec defines
  the ScopeId as a short fingerprint derived deterministically from the file path, stable
  across recompiles of the same file, so \<^verbatim>\<open>genId\<close> is a function of the path alone.
\<close>

type_synonym genIdFunction = \<open>string \<Rightarrow> string\<close>

record modul =
  hotReloadAPIPath :: string
  insertCSSPath :: string
  hasBabel :: bool
  genId :: genIdFunction
  parseComponent :: \<open>string \<Rightarrow> jserror + parts\<close>
  resolveFrom :: \<open>string \<Rightarrow> string \<Rightarrow> string\<close>
  basename :: \<open>string \<Rightarrow> string\<close>
  hash :: \<open>string \<Rightarrow> string\<close>
  stringify :: \<open>string \<Rightarrow> string\<close>
  red :: \<open>string \<Rightarrow> string\<close>
  toComment :: \<open>sourceMapGenerator \<Rightarrow> string\<close>

text \<open>
  What may differ from one compilation to the next: the files on disk (\<open>None\<close> where
  \<^verbatim>\<open>fs.readFileSync\<close> throws), the transforms that the registry object
  \<^verbatim>\<open>compilers\<close> holds as its own properties, the template translator (it returns an
  object or throws) and the style rewriter (a promise; its time is the number of turns
  after the call).
\<close>

record world =
  readFileSync :: \<open>string \<rightharpoonup> string\<close>
  compilers :: \<open>string \<rightharpoonup> transform\<close>
  compileTemplate :: \<open>result \<Rightarrow> jserror + templateObj\<close>
  rewriteStyle :: \<open>string \<Rightarrow> string \<Rightarrow> bool \<Rightarrow> options \<Rightarrow> string promise\<close>

text \<open>
  The registry is an ordinary object (the export of \<^verbatim>\<open>./compilers\<close>, to which
  \<^verbatim>\<open>applyConfig\<close> adds properties), so \<^verbatim>\<open>compilers[key]\<close> also finds the properties
  that every object inherits from \<^verbatim>\<open>Object.prototype\<close>. All of them are truthy. The
  table gives what each does when the module calls it as
  \<^verbatim>\<open>compile(source, cb, compiler, filePath)\<close>, where \<^verbatim>\<open>source\<close> is a string or
  \<^verbatim>\<open>undefined\<close> and \<^verbatim>\<open>this\<close> is \<^verbatim>\<open>undefined\<close>: \<^verbatim>\<open>Object\<close>,
  \<^verbatim>\<open>toString\<close> and \<^verbatim>\<open>isPrototypeOf\<close> return without calling \<^verbatim>\<open>cb\<close>; the
  value of \<^verbatim>\<open>__proto__\<close> is not a function, and the others raise on their
  \<^verbatim>\<open>this\<close>.
\<close>

definition objectPrototype :: \<open>string \<rightharpoonup> transform\<close> where
  \<open>objectPrototype =
     map_of
       [(''constructor'', \<lambda>source filePath. NeverCalls),
        (''toString'', \<lambda>source filePath. NeverCalls),
        (''isPrototypeOf'', \<lambda>source filePath. NeverCalls),
        (''__proto__'', \<lambda>source filePath. Throws (TypeError ''compile'')),
        (''hasOwnProperty'', \<lambda>source filePath. Throws (TypeError ''hasOwnProperty'')),
        (''valueOf'', \<lambda>source filePath. Throws (TypeError ''valueOf'')),
        (''propertyIsEnumerable'',
           \<lambda>source filePath. Throws (TypeError ''propertyIsEnumerable'')),
        (''toLocaleString'', \<lambda>source filePath. Throws (TypeError ''toLocaleString'')),
        (''__defineGetter__'', \<lambda>source filePath. Throws (TypeError ''__defineGetter__'')),
        (''__defineSetter__'', \<lambda>source filePath. Throws (TypeError ''__defineSetter__'')),
        (''__lookupGetter__'', \<lambda>source filePath. Throws (TypeError ''__lookupGetter__'')),
        (''__lookupSetter__'', \<lambda>source filePath. Throws (TypeError ''__lookupSetter__''))]\<close>

text \<open>\<^verbatim>\<open>compilers[key]\<close>, where \<open>None\<close> is a falsy value.\<close>

definition registryLookup :: \<open>world \<Rightarrow> string \<Rightarrow> transform option\<close> where
  \<open>registryLookup w key =
     (case compilers w key of
        Some tf \<Rightarrow> Some tf
      | None \<Rightarrow> objectPrototype key)\<close>

text \<open>The observable effects of a compilation, in the order they happen.\<close>

datatype effect =
    EmitDependency string
  | ReadFile string
  | ConsoleError string
  | EmitStyle string string

subsection \<open>Loading part contents\<close>

definition loadSrc :: \<open>modul \<Rightarrow> world \<Rightarrow> string \<Rightarrow> string \<Rightarrow> jsval \<times> effect list\<close> where
  \<open>loadSrc m w s filePath =
     (let srcPath = resolveFrom m filePath s
      in case readFileSync w srcPath of
           Some text \<Rightarrow> (Str text, [EmitDependency srcPath, ReadFile srcPath])
         | None \<Rightarrow>
             (Undefined,
              [EmitDependency srcPath, ReadFile srcPath,
               ConsoleError (red m (''Failed to load src: "'' @ s @ ''" from file: "'' @ filePath @ ''"''))]))\<close>

definition getContent :: \<open>modul \<Rightarrow> world \<Rightarrow> part \<Rightarrow> string \<Rightarrow> jsval \<times> effect list\<close> where
  \<open>getContent m w p filePath =
     (case src p of
        Some s \<Rightarrow> if s \<noteq> [] then loadSrc m w s filePath else (Str (content p), [])
      | None \<Rightarrow> (Str (content p), []))\<close>

subsection \<open>Compiling one part\<close>

text \<open>
  The promise built around a registry transform: rejected when the transform throws or
  reports an error, fulfilled with its result otherwise, pending while the callback is not
  called.
\<close>

definition callTransform :: \<open>transform \<Rightarrow> jsval \<Rightarrow> string \<Rightarrow> result promise\<close> where
  \<open>callTransform compile source filePath =
     (case compile source filePath of
        NeverCalls \<Rightarrow> Pending
      | Throws err \<Rightarrow> Rejected 0 err
      | Calls t (Some err) res \<Rightarrow> Rejected (2 * t) err
      | Calls t None res \<Rightarrow> Fulfilled (2 * t) res)\<close>

definition compileAsPromise :: \<open>world \<Rightarrow> jsval \<Rightarrow> jsval \<Rightarrow> string \<Rightarrow> result promise\<close> where
  \<open>compileAsPromise w source lng filePath =
     (case registryLookup w (propertyKey lng) of
        Some compile \<Rightarrow> callTransform compile source filePath
      | None \<Rightarrow> Fulfilled 0 (Plain source))\<close>

text \<open>
  The code frame that is logged, in the turn of the callback, when the transform reports
  an error whose \<^verbatim>\<open>codeFrame\<close> is truthy.
\<close>

definition codeFrameLog :: \<open>world \<Rightarrow> jsval \<Rightarrow> jsval \<Rightarrow> string \<Rightarrow> (nat \<times> effect) list\<close> where
  \<open>codeFrameLog w source lng filePath =
     (case registryLookup w (propertyKey lng) of
        Some compile \<Rightarrow>
          (case compile source filePath of
             Calls t (Some err) res \<Rightarrow>
               (case codeFrame err of
                  Some cf \<Rightarrow> if cf \<noteq> [] then [(t, ConsoleError cf)] else []
                | None \<Rightarrow> [])
           | _ \<Rightarrow> [])
      | None \<Rightarrow> [])\<close>

text \<open>
  The resolved parts of one run, \<open>None\<close> for \<^verbatim>\<open>null\<close> in \<open>template\<close> and for
  \<^verbatim>\<open>undefined\<close> in \<open>map\<close>.
\<close>

record resolvedParts =
  template :: \<open>templateObj option\<close>
  script :: jsval
  inMap :: \<open>inMap option\<close>
  styles :: \<open>string list\<close>

text \<open>What a part compiler writes into the resolved parts when its promise is fulfilled.\<close>

datatype partWrite =
    NoWrite
  | SetTemplate templateObj
  | SetScript jsval
  | SetScriptMap jsval \<open>inMap option\<close>
  | PushStyle string

fun applyWrite :: \<open>resolvedParts \<Rightarrow> partWrite \<Rightarrow> resolvedParts\<close> where
  \<open>applyWrite rp NoWrite = rp\<close>
| \<open>applyWrite rp (SetTemplate t) = rp\<lparr>resolvedParts.template := Some t\<rparr>\<close>
| \<open>applyWrite rp (SetScript c) = rp\<lparr>resolvedParts.script := c\<rparr>\<close>
| \<open>applyWrite rp (SetScriptMap c mp) = rp\<lparr>resolvedParts.script := c, inMap := mp\<rparr>\<close>
| \<open>applyWrite rp (PushStyle css) = rp\<lparr>resolvedParts.styles := resolvedParts.styles rp @ [css]\<rparr>\<close>

text \<open>
  Each part compiler returns its promise, the effects of loading the content (they happen
  during the call) and the code frames logged later, with their times. The functions
  \<open>thenTemplate\<close>, \<open>thenScript\<close> and \<open>thenStyle\<close> are the callbacks given to
  \<^verbatim>\<open>.then\<close>: an exception in a callback rejects the promise.
\<close>

type_synonym processed = \<open>partWrite promise \<times> effect list \<times> (nat \<times> effect) list\<close>

definition thenTemplate :: \<open>world \<Rightarrow> result promise \<Rightarrow> partWrite promise\<close> where
  \<open>thenTemplate w p =
     (case p of
        Pending \<Rightarrow> Pending
      | Rejected t err \<Rightarrow> Rejected t err
      | Fulfilled t res \<Rightarrow>
          (case compileTemplate w res of
             Inl err \<Rightarrow> Rejected t err
           | Inr obj \<Rightarrow> Fulfilled t (SetTemplate obj)))\<close>

definition processTemplate :: \<open>modul \<Rightarrow> world \<Rightarrow> part option \<Rightarrow> string \<Rightarrow> processed\<close> where
  \<open>processTemplate m w p filePath =
     (case p of
        None \<Rightarrow> (Fulfilled 0 NoWrite, [], [])
      | Some pt \<Rightarrow>
          (let (tmpl, effs) = getContent m w pt filePath
           in (thenTemplate w (compileAsPromise w tmpl (attr (lang pt)) filePath),
               effs, codeFrameLog w tmpl (attr (lang pt)) filePath)))\<close>

text \<open>\<^verbatim>\<open>part.lang || (hasBabel ? 'babel' : null)\<close>\<close>

definition scriptLang :: \<open>modul \<Rightarrow> part \<Rightarrow> jsval\<close> where
  \<open>scriptLang m p =
     (if truthy (attr (lang p)) then attr (lang p)
      else if hasBabel m then Str ''babel'' else Null)\<close>

definition thenScript :: \<open>result promise \<Rightarrow> partWrite promise\<close> where
  \<open>thenScript p =
     (case p of
        Pending \<Rightarrow> Pending
      | Rejected t err \<Rightarrow> Rejected t err
      | Fulfilled t (Plain (Str s)) \<Rightarrow> Fulfilled t (SetScript (Str s))
      | Fulfilled t (Plain _) \<Rightarrow> Rejected t (TypeError ''res.code'')
      | Fulfilled t (CodeMap c mp) \<Rightarrow> Fulfilled t (SetScriptMap c mp))\<close>

definition processScript :: \<open>modul \<Rightarrow> world \<Rightarrow> part option \<Rightarrow> string \<Rightarrow> processed\<close> where
  \<open>processScript m w p filePath =
     (case p of
        None \<Rightarrow> (Fulfilled 0 NoWrite, [], [])
      | Some pt \<Rightarrow>
          (let lng = scriptLang m pt;
               (scr, effs) = getContent m w pt filePath
           in (thenScript (compileAsPromise w scr lng filePath),
               effs, codeFrameLog w scr lng filePath)))\<close>

definition thenStyle ::
  \<open>world \<Rightarrow> options \<Rightarrow> part \<Rightarrow> string \<Rightarrow> result promise \<Rightarrow> partWrite promise\<close> where
  \<open>thenStyle w opts pt i p =
     (case p of
        Pending \<Rightarrow> Pending
      | Rejected t err \<Rightarrow> Rejected t err
      | Fulfilled t (Plain (Str s)) \<Rightarrow>
          (case rewriteStyle w i (trim s) (scoped pt) opts of
             Pending \<Rightarrow> Pending
           | Rejected dt err \<Rightarrow> Rejected (t + 2 * dt + 1) err
           | Fulfilled dt css \<Rightarrow> Fulfilled (t + 2 * dt + 1) (PushStyle css))
      | Fulfilled t _ \<Rightarrow> Rejected t (TypeError ''res.trim''))\<close>

definition processStyle ::
  \<open>modul \<Rightarrow> world \<Rightarrow> options \<Rightarrow> part \<Rightarrow> string \<Rightarrow> string \<Rightarrow> processed\<close> where
  \<open>processStyle m w opts pt filePath i =
     (let (style, effs) = getContent m w pt filePath
      in (thenStyle w opts pt i (compileAsPromise w style (attr (lang pt)) filePath),
          effs, codeFrameLog w style (attr (lang pt)) filePath))\<close>

subsection \<open>The join\<close>

text \<open>
  \<^verbatim>\<open>Promise.all\<close> rejects with the rejection that happens first (the earlier element of
  the array when two happen at the same time), stays pending when nothing is rejected and
  something is pending, and is fulfilled otherwise. The writes into the resolved parts
  have then happened in the order of their times.
\<close>

fun firstRejected :: \<open>'a promise list \<Rightarrow> (nat \<times> jserror) option\<close> where
  \<open>firstRejected [] = None\<close>
| \<open>firstRejected (Rejected t err # ps) =
     (case firstRejected ps of
        Some (t', err') \<Rightarrow> if t' < t then Some (t', err') else Some (t, err)
      | None \<Rightarrow> Some (t, err))\<close>
| \<open>firstRejected (Pending # ps) = firstRejected ps\<close>
| \<open>firstRejected (Fulfilled t v # ps) = firstRejected ps\<close>

fun fulfilments :: \<open>'a promise list \<Rightarrow> (nat \<times> 'a) list\<close> where
  \<open>fulfilments [] = []\<close>
| \<open>fulfilments (Fulfilled t v # ps) = (t, v) # fulfilments ps\<close>
| \<open>fulfilments (Pending # ps) = fulfilments ps\<close>
| \<open>fulfilments (Rejected t err # ps) = fulfilments ps\<close>

fun isPending :: \<open>'a promise \<Rightarrow> bool\<close> where
  \<open>isPending Pending = True\<close>
| \<open>isPending _ = False\<close>

definition promiseAll :: \<open>'a promise list \<Rightarrow> 'a list promise\<close> where
  \<open>promiseAll ps =
     (case firstRejected ps of
        Some (t, err) \<Rightarrow> Rejected t err
      | None \<Rightarrow>
          if list_ex isPending ps then Pending
          else Fulfilled (fold max (map fst (fulfilments ps)) 0)
                 (map snd (sort_key fst (fulfilments ps))))\<close>

definition resolve :: \<open>partWrite list \<Rightarrow> resolvedParts\<close> where
  \<open>resolve ws =
     foldl applyWrite
       \<lparr>resolvedParts.template = None, script = Null, inMap = None, styles = []\<rparr> ws\<close>

subsection \<open>The source-map builder\<close>

definition generateSourceMap ::
  \<open>modul \<Rightarrow> string \<Rightarrow> string \<Rightarrow> resolvedParts \<Rightarrow> string \<Rightarrow> string \<Rightarrow> jserror + sourceMapGenerator\<close>
where
  \<open>generateSourceMap m filePath document rp scr output =
     (let hashedName = basename m filePath @ ''?'' @ hash m (filePath @ document);
          inMapConsumer = inMap rp;
          generatedOffset = (if output \<noteq> [] then length (split_lines output) else 0) + 1;
          added =
            concat (map (\<lambda>index.
                   let ln = index + 1;
                       originalLine = (case inMapConsumer of Some c \<Rightarrow> c ln | None \<Rightarrow> Some ln)
                   in case originalLine of
                        Some ol \<Rightarrow>
                          if ol \<noteq> 0
                          then [\<lparr>sourceFile = hashedName, generated = ln + generatedOffset,
                                 original = ol\<rparr>]
                          else []
                      | None \<Rightarrow> [])
                 [0 ..< length (split_lines scr)])
      in case inMapConsumer of
           None \<Rightarrow> Inl (TypeError ''inMapConsumer.destroy'')
         | Some c \<Rightarrow>
             Inr \<lparr>sourcesContent = [(hashedName, document)], mappings = added,
                  hashedFilename = hashedName\<rparr>)\<close>

definition addTemplateMapping ::
  \<open>string \<Rightarrow> parts \<Rightarrow> string \<Rightarrow> sourceMapGenerator \<Rightarrow> nat \<Rightarrow> jserror + sourceMapGenerator\<close>
where
  \<open>addTemplateMapping document d output mp beforeLines =
     (case parts.template d of
        None \<Rightarrow> Inl (TypeError ''parts.template.start'')
      | Some pt \<Rightarrow>
          (let afterLines = length (split_lines output);
               templateLine = length (split_lines (take (start pt) document))
           in Inr (mp\<lparr>mappings := mappings mp @
                     map (\<lambda>b. \<lparr>sourceFile = hashedFilename mp, generated = b,
                               original = templateLine\<rparr>)
                       [beforeLines ..< afterLines]\<rparr>)))\<close>

subsection \<open>The texts of the output module\<close>

definition insertStyle :: \<open>modul \<Rightarrow> string \<Rightarrow> string\<close> where
  \<open>insertStyle m style =
     ''var __vueify_style_dispose__ = require("'' @ insertCSSPath m @ ''").insert('' @ style @ '')'' @ NL\<close>

definition wrapScript :: \<open>string \<Rightarrow> string\<close> where
  \<open>wrapScript scr =
     '';(function(){'' @ NL @ scr @ NL @ ''})()'' @ NL @
     ''if (module.exports.__esModule) module.exports = module.exports.default'' @ NL\<close>

definition optionsBinding :: string where
  \<open>optionsBinding =
     ''var __vue__options__ = (typeof module.exports === "function"'' @
     ''? module.exports.options'' @
     '': module.exports)'' @ NL\<close>

definition functionalGuard :: string where
  \<open>functionalGuard =
     ''if (__vue__options__.functional) {console.error("'' @
     ''[vueify] functional components are not supported and '' @
     ''should be defined in plain js files using render functions.'' @
     ''")}'' @ NL\<close>

definition attachTemplate :: \<open>templateObj \<Rightarrow> string\<close> where
  \<open>attachTemplate t =
     ''__vue__options__.render = '' @ render t @ NL @
     ''__vue__options__.staticRenderFns = '' @ staticRenderFns t @ NL\<close>

definition attachScopeId :: \<open>string \<Rightarrow> string\<close> where
  \<open>attachScopeId i = ''__vue__options__._scopeId = "'' @ i @ ''"'' @ NL\<close>

definition reloadCall :: \<open>string \<Rightarrow> string\<close> where
  \<open>reloadCall i = ''    hotAPI.reload("'' @ i @ ''", __vue__options__)'' @ NL\<close>

definition rerenderCall :: \<open>string \<Rightarrow> string\<close> where
  \<open>rerenderCall i = ''    hotAPI.rerender("'' @ i @ ''", __vue__options__)'' @ NL\<close>

definition updateAction :: \<open>bool \<Rightarrow> bool \<Rightarrow> string \<Rightarrow> string\<close> where
  \<open>updateAction scriptChanged templateChanged i =
     (if scriptChanged then reloadCall i
      else if templateChanged then rerenderCall i
      else [])\<close>

definition hotReload :: \<open>modul \<Rightarrow> string \<Rightarrow> bool \<Rightarrow> string \<Rightarrow> string\<close> where
  \<open>hotReload m i disposeStyle update =
     ''if (module.hot) {(function () {'' @
     ''  var hotAPI = require("'' @ hotReloadAPIPath m @ ''")'' @ NL @
     ''  hotAPI.install(require("vue"), true)'' @ NL @
     ''  if (!hotAPI.compatible) return'' @ NL @
     ''  module.hot.accept()'' @ NL @
     (if disposeStyle then ''  module.hot.dispose(__vueify_style_dispose__)'' @ NL else []) @
     ''  if (!module.hot.data) {'' @ NL @
     ''    hotAPI.createRecord("'' @ i @ ''", __vue__options__)'' @ NL @
     ''  } else {'' @ NL @
     update @
     ''  }'' @ NL @
     ''})()}''\<close>

subsection \<open>The merge engine\<close>

text \<open>
  \<^verbatim>\<open>resolvedPartsCache\<close>, and \<^verbatim>\<open>x.script\<close> and \<^verbatim>\<open>x.template\<close> for
  \<^verbatim>\<open>x = resolvedPartsCache[id] || {}\<close>.
\<close>

type_synonym cache = \<open>string \<rightharpoonup> resolvedParts\<close>

definition prevScript :: \<open>resolvedParts option \<Rightarrow> jsval\<close> where
  \<open>prevScript prev = (case prev of None \<Rightarrow> Undefined | Some pp \<Rightarrow> resolvedParts.script pp)\<close>

fun templateOf :: \<open>templateObj option \<Rightarrow> templateVal\<close> where
  \<open>templateOf None = TNull\<close>
| \<open>templateOf (Some t) = TObj t\<close>

definition prevTemplate :: \<open>resolvedParts option \<Rightarrow> templateVal\<close> where
  \<open>prevTemplate prev =
     (case prev of None \<Rightarrow> TUndefined | Some pp \<Rightarrow> templateOf (resolvedParts.template pp))\<close>

text \<open>What the caller observes of a compilation.\<close>

datatype outcome =
    CallbackResult string
  | CallbackError jserror
  | NoCallback
  | Uncaught jserror

text \<open>
  The script step of the merge: the source map, when one is asked for, is built from the
  output so far; then the wrapped script is appended.
\<close>

definition emitScript ::
  \<open>modul \<Rightarrow> options \<Rightarrow> string \<Rightarrow> string \<Rightarrow> resolvedParts \<Rightarrow> string
    \<Rightarrow> jserror + string \<times> sourceMapGenerator option\<close>
where
  \<open>emitScript m opts filePath document rp output =
     (case resolvedParts.script rp of
        Str scr \<Rightarrow>
          if scr \<noteq> [] then
            (if sourceMap opts then
               (case generateSourceMap m filePath document rp scr output of
                  Inl err \<Rightarrow> Inl err
                | Inr mp \<Rightarrow> Inr (output @ wrapScript scr, Some mp))
             else Inr (output @ wrapScript scr, None))
          else Inr (output, None)
      | _ \<Rightarrow> Inr (output, None))\<close>

text \<open>The template step of the merge.\<close>

definition emitTemplate ::
  \<open>env \<Rightarrow> string \<Rightarrow> parts \<Rightarrow> resolvedParts \<Rightarrow> string \<Rightarrow> sourceMapGenerator option
    \<Rightarrow> jserror + string \<times> sourceMapGenerator option\<close>
where
  \<open>emitTemplate e document d rp output mp =
     (case resolvedParts.template rp of
        None \<Rightarrow> Inr (output, mp)
      | Some t \<Rightarrow>
          (let output1 =
                 output @ (if \<not> isProduction e \<and> \<not> isServer e then functionalGuard else []);
               beforeLines = length (split_lines output1);
               output2 = output1 @ attachTemplate t
           in case mp of
                None \<Rightarrow> Inr (output2, None)
              | Some g \<Rightarrow>
                  (case addTemplateMapping document d output2 g beforeLines of
                     Inl err \<Rightarrow> Inl err
                   | Inr g' \<Rightarrow> Inr (output2, Some g'))))\<close>

definition mergeParts ::
  \<open>modul \<Rightarrow> env \<Rightarrow> options \<Rightarrow> string \<Rightarrow> string \<Rightarrow> parts \<Rightarrow> string \<Rightarrow> bool \<Rightarrow> resolvedParts
    \<Rightarrow> cache \<Rightarrow> outcome \<times> cache \<times> effect list\<close>
where
  \<open>mergeParts m e opts document filePath d i hasScopedStyle rp cache =
     (let prevParts = cache i;
          cache' = cache(i \<mapsto> rp);
          scriptChanged = (resolvedParts.script rp \<noteq> prevScript prevParts);
          templateChanged =
            (\<not> strictEq (templateOf (resolvedParts.template rp)) (prevTemplate prevParts));
          style = join NL (resolvedParts.styles rp);
          emitted = (style \<noteq> [] \<and> \<not> isServer e);
          effs = (if emitted then [EmitStyle filePath style] else []);
          inlined = (emitted \<and> \<not> extractCSS opts);
          style' = (if inlined then stringify m style else style);
          output0 = (if inlined then insertStyle m style' else [])
      in case emitScript m opts filePath document rp output0 of
           Inl err \<Rightarrow> (CallbackError err, cache', effs)
         | Inr (output1, mp1) \<Rightarrow>
             (case emitTemplate e document d rp (output1 @ optionsBinding) mp1 of
                Inl err \<Rightarrow> (CallbackError err, cache', effs)
              | Inr (output2, mp2) \<Rightarrow>
                  (let output3 = output2 @ (if hasScopedStyle then attachScopeId i else []);
                       output4 = output3 @
                         (if \<not> isProduction e \<and> \<not> isTest e \<and> \<not> isServer e
                          then hotReload m i (style' \<noteq> [] \<and> \<not> extractCSS opts)
                                 (updateAction scriptChanged templateChanged i)
                          else []);
                       output5 = output4 @
                         (case mp2 of Some g \<Rightarrow> NL @ toComment m g | None \<Rightarrow> [])
                   in (CallbackResult output5, cache', effs))))\<close>

subsection \<open>A compilation\<close>

record run =
  outcome :: outcome
  cacheAfter :: cache
  effects :: \<open>effect list\<close>

text \<open>The part compilers of a run, in the order of the array given to \<^verbatim>\<open>Promise.all\<close>.\<close>

definition processParts ::
  \<open>modul \<Rightarrow> world \<Rightarrow> options \<Rightarrow> parts \<Rightarrow> string \<Rightarrow> string \<Rightarrow> processed list\<close> where
  \<open>processParts m w opts d filePath i =
     [processTemplate m w (parts.template d) filePath,
      processScript m w (parts.script d) filePath] @
     map (\<lambda>style. processStyle m w opts style filePath i) (parts.styles d)\<close>

definition scopeId :: \<open>modul \<Rightarrow> string \<Rightarrow> string\<close> where
  \<open>scopeId m filePath = ''data-v-'' @ genId m filePath\<close>

definition compile ::
  \<open>modul \<Rightarrow> world \<Rightarrow> env \<Rightarrow> options \<Rightarrow> string \<Rightarrow> string \<Rightarrow> cache \<Rightarrow> run\<close> where
  \<open>compile m w e opts document filePath cache =
     (let i = scopeId m filePath
      in case parseComponent m document of
           Inl err \<Rightarrow> \<lparr>outcome = Uncaught err, cacheAfter = cache, effects = []\<rparr>
         | Inr d \<Rightarrow>
             (let hasScopedStyle = list_ex scoped (parts.styles d);
                  ps = processParts m w opts d filePath i;
                  loaded = concat (map (\<lambda>(p, effs, logs). effs) ps);
                  logged = map snd (sort_key fst (concat (map (\<lambda>(p, effs, logs). logs) ps)))
              in case promiseAll (map (\<lambda>(p, effs, logs). p) ps) of
                   Rejected t err \<Rightarrow>
                     \<lparr>outcome = CallbackError err, cacheAfter = cache,
                      effects = loaded @ logged\<rparr>
                 | Pending \<Rightarrow>
                     \<lparr>outcome = NoCallback, cacheAfter = cache, effects = loaded @ logged\<rparr>
                 | Fulfilled t ws \<Rightarrow>
                     (case mergeParts m e opts document filePath d i hasScopedStyle
                             (resolve ws) cache of
                        (oc, cache', effs) \<Rightarrow>
                          \<lparr>outcome = oc, cacheAfter = cache',
                           effects = loaded @ logged @ effs\<rparr>)))\<close>

text \<open>
  The resolved parts a run hands to the merge: they exist when the document parses and
  every part compiler is fulfilled.
\<close>

definition resolved ::
  \<open>modul \<Rightarrow> world \<Rightarrow> options \<Rightarrow> string \<Rightarrow> string \<Rightarrow> resolvedParts option\<close> where
  \<open>resolved m w opts document filePath =
     (case parseComponent m document of
        Inl err \<Rightarrow> None
      | Inr d \<Rightarrow>
          (case promiseAll (map (\<lambda>(p, effs, logs). p)
                   (processParts m w opts d filePath (scopeId m filePath))) of
             Fulfilled t ws \<Rightarrow> Some (resolve ws)
           | _ \<Rightarrow> None))\<close>

text \<open>The registry transform for a part content and language tag reports an error.\<close>

definition reportsError :: \<open>world \<Rightarrow> jsval \<Rightarrow> jsval \<Rightarrow> string \<Rightarrow> bool\<close> where
  \<open>reportsError w source lng filePath =
     (case registryLookup w (propertyKey lng) of
        Some tf \<Rightarrow>
          (case tf source filePath of Calls t (Some err) res \<Rightarrow> True | _ \<Rightarrow> False)
      | None \<Rightarrow> False)\<close>

text \<open>Some part of the document is compiled by a transform that reports an error.\<close>

definition somePartFails :: \<open>modul \<Rightarrow> world \<Rightarrow> parts \<Rightarrow> string \<Rightarrow> bool\<close> where
  \<open>somePartFails m w d filePath =
     ((case parts.template d of
         Some pt \<Rightarrow> reportsError w (fst (getContent m w pt filePath)) (attr (lang pt)) filePath
       | None \<Rightarrow> False) \<or>
      (case parts.script d of
         Some pt \<Rightarrow> reportsError w (fst (getContent m w pt filePath)) (scriptLang m pt) filePath
       | None \<Rightarrow> False) \<or>
      list_ex (\<lambda>pt. reportsError w (fst (getContent m w pt filePath)) (attr (lang pt)) filePath)
        (parts.styles d))\<close>

subsection \<open>Example inputs\<close>

text \<open>
  A module whose parser returns the descriptor \<open>d\<close>, and a world with the files
  \<open>fs\<close> and the registry \<open>reg\<close>, whose template translator returns an object with
  the reference \<open>r\<close> and whose style rewriter returns the style unchanged.
\<close>

definition exampleModule :: \<open>bool \<Rightarrow> parts \<Rightarrow> modul\<close> where
  \<open>exampleModule babel d =
     \<lparr>hotReloadAPIPath = ''vue-hot-reload-api'', insertCSSPath = ''vueify/lib/insert-css'',
      hasBabel = babel, genId = (\<lambda>f. ''7ba5bd90''), parseComponent = (\<lambda>c. Inr d),
      resolveFrom = (\<lambda>f s. ''/app/'' @ s), basename = (\<lambda>f. ''a.vue''),
      hash = (\<lambda>x. ''2f0a''), stringify = (\<lambda>x. ''"'' @ x @ ''"''), red = (\<lambda>x. x),
      toComment = (\<lambda>g. ''//# sourceMappingURL=data:application/json;base64,'')\<rparr>\<close>

definition exampleWorld :: \<open>(string \<rightharpoonup> string) \<Rightarrow> (string \<rightharpoonup> transform) \<Rightarrow> nat \<Rightarrow> world\<close> where
  \<open>exampleWorld fs reg r =
     \<lparr>readFileSync = fs, compilers = reg,
      compileTemplate =
        (\<lambda>res. Inr \<lparr>ref = r, render = ''function(){}'', staticRenderFns = ''[]''\<rparr>),
      rewriteStyle = (\<lambda>i css sc opts. Fulfilled 0 css)\<rparr>\<close>

definition inlinePart :: \<open>string \<Rightarrow> part\<close> where
  \<open>inlinePart c = \<lparr>lang = None, src = None, content = c, scoped = False, start = 0\<rparr>\<close>

definition srcPart :: \<open>string \<Rightarrow> part\<close> where
  \<open>srcPart s = \<lparr>lang = None, src = Some s, content = [], scoped = False, start = 0\<rparr>\<close>

definition development :: env where
  \<open>development = \<lparr>isProduction = False, isServer = False, isTest = False\<rparr>\<close>

definition production :: env where
  \<open>production = \<lparr>isProduction = True, isServer = False, isTest = False\<rparr>\<close>

definition plainOptions :: options where
  \<open>plainOptions = \<lparr>sourceMap = False, extractCSS = False\<rparr>\<close>

definition mapOptions :: options where
  \<open>mapOptions = \<lparr>sourceMap = True, extractCSS = False\<rparr>\<close>

definition scriptOnly :: \<open>part \<Rightarrow> parts\<close> where
  \<open>scriptOnly pt = \<lparr>parts.template = None, script = Some pt, styles = []\<rparr>\<close>

definition styleOnly :: \<open>part \<Rightarrow> parts\<close> where
  \<open>styleOnly pt = \<lparr>parts.template = None, script = None, styles = [pt]\<rparr>\<close>

text \<open>
  Transforms: one that calls back at time \<open>t\<close> with a result, one that reports an
  error, one that never calls back.
\<close>

definition succeedingTransform :: \<open>nat \<Rightarrow> result \<Rightarrow> transform\<close> where
  \<open>succeedingTransform t res = (\<lambda>source filePath. Calls t None res)\<close>

definition failingTransform :: \<open>nat \<Rightarrow> jserror \<Rightarrow> transform\<close> where
  \<open>failingTransform t err = (\<lambda>source filePath. Calls t (Some err) (Plain Undefined))\<close>

definition hangingTransform :: transform where
  \<open>hangingTransform = (\<lambda>source filePath. NeverCalls)\<close>

definition extractingOptions :: options where
  \<open>extractingOptions = \<lparr>sourceMap = False, extractCSS = True\<rparr>\<close>

definition scopedStyle :: \<open>string \<Rightarrow> part\<close> where
  \<open>scopedStyle c = \<lparr>lang = None, src = None, content = c, scoped = True, start = 0\<rparr>\<close>

definition scriptAndStyle :: \<open>part \<Rightarrow> part \<Rightarrow> parts\<close> where
  \<open>scriptAndStyle scr sty = \<lparr>parts.template = None, script = Some scr, styles = [sty]\<rparr>\<close>

definition templateOnly :: \<open>part \<Rightarrow> parts\<close> where
  \<open>templateOnly pt = \<lparr>parts.template = Some pt, script = None, styles = []\<rparr>\<close>

text \<open>A module whose parser knows the documents of a table and rejects every other text.\<close>

definition parsingModule :: \<open>(string \<rightharpoonup> parts) \<Rightarrow> modul\<close> where
  \<open>parsingModule table =
     (exampleModule False \<lparr>parts.template = None, script = None, styles = []\<rparr>)
       \<lparr>parseComponent :=
          (\<lambda>c. case table c of
                 Some d \<Rightarrow> Inr d
               | None \<Rightarrow> Inl (ExternalError ''malformed document'' None))\<rparr>\<close>

definition taggedPart :: \<open>string \<Rightarrow> string \<Rightarrow> part\<close> where
  \<open>taggedPart l c = \<lparr>lang = Some l, src = None, content = c, scoped = False, start = 0\<rparr>\<close>

text \<open>
  A document with a template, a script and a style in three languages, and a registry in
  which the template compiler never calls back, the script compiler reports an error with
  a code frame at time 2 and the style compiler reports an error at time 1.
\<close>

definition threeLanguages :: parts where
  \<open>threeLanguages =
     \<lparr>parts.template = Some (taggedPart ''pug'' ''p hello''),
      script = Some (taggedPart ''coffee'' ''x =''),
      styles = [taggedPart ''less'' ''a {'']\<rparr>\<close>

definition failingRegistry :: \<open>string \<rightharpoonup> transform\<close> where
  \<open>failingRegistry =
     [''pug'' \<mapsto> hangingTransform,
      ''coffee'' \<mapsto> failingTransform 2 (ExternalError ''unexpected end of input'' (Some ''> 1 | x ='')),
      ''less'' \<mapsto> failingTransform 1 (ExternalError ''unrecognised input'' None)]\<close>

definition templateAndScript :: \<open>part \<Rightarrow> part \<Rightarrow> parts\<close> where
  \<open>templateAndScript tpl scr = \<lparr>parts.template = Some tpl, script = Some scr, styles = []\<rparr>\<close>

text \<open>A template block that starts at the given offset of the document.\<close>

definition templateAt :: \<open>nat \<Rightarrow> string \<Rightarrow> part\<close> where
  \<open>templateAt n c = \<lparr>lang = None, src = None, content = c, scoped = False, start = n\<rparr>\<close>

section \<open>Properties of the part compilers\<close>

subsection \<open>Loading an external source\<close>

lemma loadSrc_announces_first:
  \<open>\<exists>rest. snd (loadSrc m w s filePath) =
      EmitDependency (resolveFrom m filePath s) # ReadFile (resolveFrom m filePath s) # rest\<close>
  by (simp add: loadSrc_def Let_def split: option.splits)

lemma loadSrc_missing:
  assumes \<open>readFileSync w (resolveFrom m filePath s) = None\<close>
  shows \<open>fst (loadSrc m w s filePath) = Undefined\<close>
  using assms by (simp add: loadSrc_def Let_def)

text \<open>
  A style part whose source file is missing and whose language has no registry entry is
  rejected with the error of \<^verbatim>\<open>res.trim()\<close>.
\<close>

lemma processStyle_missing_source:
  assumes \<open>src pt = Some s\<close> \<open>s \<noteq> []\<close>
    and \<open>readFileSync w (resolveFrom m filePath s) = None\<close>
    and \<open>registryLookup w (propertyKey (attr (lang pt))) = None\<close>
  shows \<open>fst (processStyle m w opts pt filePath i) = Rejected 0 (TypeError ''res.trim'')\<close>
  using assms loadSrc_missing [OF assms(3)]
  by (simp add: processStyle_def getContent_def compileAsPromise_def thenStyle_def
      case_prod_unfold)

text \<open>
  Claim C2 (the code departs from it). A style block whose \<^verbatim>\<open>src\<close> file is missing: the
  dependency is announced before the read and the failure is logged, but the content is
  \<^verbatim>\<open>undefined\<close>, not the empty text, so \<^verbatim>\<open>res.trim()\<close> raises and the callback
  receives that error instead of a module.
\<close>

theorem C2_missing_style_source_fails:
  \<open>(let r = compile (exampleModule False (styleOnly (srcPart ''missing.css'')))
              (exampleWorld Map.empty Map.empty 1) production plainOptions
              ''<style src="missing.css"></style>'' ''/app/a.vue'' Map.empty
    in outcome r = CallbackError (TypeError ''res.trim'') \<and>
       cacheAfter r ''data-v-7ba5bd90'' = None \<and>
       effects r =
         [EmitDependency ''/app/missing.css'', ReadFile ''/app/missing.css'',
          ConsoleError ''Failed to load src: "missing.css" from file: "/app/a.vue"''])\<close>
  by code_simp

subsection \<open>The registry\<close>

lemma registryLookup_own:
  assumes \<open>compilers w key = Some tf\<close>
  shows \<open>registryLookup w key = Some tf\<close>
  using assms by (simp add: registryLookup_def)

text \<open>
  When the lookup \<^verbatim>\<open>compilers[lang]\<close> is falsy, \<^verbatim>\<open>compileAsPromise\<close> is fulfilled
  with the source of the part unchanged, and nothing is rejected or logged.
\<close>

lemma compileAsPromise_falsy_lookup:
  assumes \<open>registryLookup w (propertyKey lng) = None\<close>
  shows \<open>compileAsPromise w source lng filePath = Fulfilled 0 (Plain source) \<and>
         codeFrameLog w source lng filePath = []\<close>
  using assms by (simp add: compileAsPromise_def codeFrameLog_def)

text \<open>
  Claim C9 (the code departs from it). A language tag for which the registry has no entry
  but which is the name of a property that every object inherits: the lookup is truthy
  and the module calls what it finds. For \<^verbatim>\<open>lang="constructor"\<close> that is
  \<^verbatim>\<open>Object\<close>, which never calls back, so the part is not passed through and the
  callback of the compilation is never called; for \<^verbatim>\<open>lang="hasOwnProperty"\<close> the call
  raises and the callback receives that error.
\<close>

theorem C9_inherited_name_is_not_identity:
  \<open>(let w = exampleWorld Map.empty Map.empty 1
    in compilers w ''constructor'' = None \<and>
       isPending
         (compileAsPromise w (Str ''a { color: red }'') (Str ''constructor'') ''/app/a.vue'') \<and>
       outcome (compile (exampleModule False (styleOnly (taggedPart ''constructor'' ''a {}'')))
                  w production plainOptions ''<style lang="constructor">a {}</style>''
                  ''/app/a.vue'' Map.empty) = NoCallback \<and>
       compilers w ''hasOwnProperty'' = None \<and>
       outcome (compile (exampleModule False (styleOnly (taggedPart ''hasOwnProperty'' ''a {}'')))
                  w production plainOptions ''<style lang="hasOwnProperty">a {}</style>''
                  ''/app/a.vue'' Map.empty) = CallbackError (TypeError ''hasOwnProperty''))\<close>
  by code_simp

text \<open>
  So the callbacks of the three part compilers receive the content of the part itself
  when the lookup for its language is falsy.
\<close>

lemma parts_without_compiler:
  assumes \<open>registryLookup w (propertyKey (attr (lang pt))) = None\<close>
  shows \<open>fst (processTemplate m w (Some pt) filePath) =
           thenTemplate w (Fulfilled 0 (Plain (fst (getContent m w pt filePath))))\<close>
    and \<open>fst (processStyle m w opts pt filePath i) =
           thenStyle w opts pt i (Fulfilled 0 (Plain (fst (getContent m w pt filePath))))\<close>
    and \<open>registryLookup w (propertyKey (scriptLang m pt)) = None \<Longrightarrow>
         fst (processScript m w (Some pt) filePath) =
           thenScript (Fulfilled 0 (Plain (fst (getContent m w pt filePath))))\<close>
  using assms
  by (simp_all add: processTemplate_def processStyle_def processScript_def compileAsPromise_def
      case_prod_unfold Let_def)

text \<open>
  Claim C10. A script part without a language tag is compiled by the registry entry
  \<^verbatim>\<open>babel\<close> when \<^verbatim>\<open>babel-core\<close> could be loaded; only when it could not is the tag
  \<^verbatim>\<open>null\<close>, for which the content passes through unless the registry has an entry of
  that name.
\<close>

theorem C10_untagged_script_uses_babel:
  assumes \<open>\<not> truthy (attr (lang pt))\<close>
    and \<open>compilers w ''babel'' = Some babel\<close>
  shows \<open>fst (processScript m w (Some pt) filePath) =
           (if hasBabel m
            then thenScript (callTransform babel (fst (getContent m w pt filePath)) filePath)
            else thenScript (compileAsPromise w (fst (getContent m w pt filePath)) Null filePath))\<close>
  using assms
  by (cases \<open>getContent m w pt filePath\<close>)
    (simp add: scriptLang_def processScript_def compileAsPromise_def registryLookup_own)

theorem C10_untagged_script_uses_babel_witness:
  \<open>\<not> truthy (attr (lang (inlinePart ''export default {}''))) \<and>
   compilers (exampleWorld Map.empty
       [''babel'' \<mapsto> succeedingTransform 1 (Plain (Str ''module.exports = {}''))] 1) ''babel''
     = Some (succeedingTransform 1 (Plain (Str ''module.exports = {}''))) \<and>
   fst (processScript (exampleModule True (scriptOnly (inlinePart ''export default {}'')))
          (exampleWorld Map.empty
             [''babel'' \<mapsto> succeedingTransform 1 (Plain (Str ''module.exports = {}''))] 1)
          (Some (inlinePart ''export default {}'')) ''/app/a.vue'')
     = Fulfilled 2 (SetScript (Str ''module.exports = {}'')) \<and>
   fst (processScript (exampleModule False (scriptOnly (inlinePart ''export default {}'')))
          (exampleWorld Map.empty
             [''babel'' \<mapsto> succeedingTransform 1 (Plain (Str ''module.exports = {}''))] 1)
          (Some (inlinePart ''export default {}'')) ''/app/a.vue'')
     = Fulfilled 0 (SetScript (Str ''export default {}''))\<close>
proof -
  let ?pt = \<open>inlinePart ''export default {}''\<close>
  let ?babel = \<open>succeedingTransform 1 (Plain (Str ''module.exports = {}''))\<close>
  let ?w = \<open>exampleWorld Map.empty [''babel'' \<mapsto> ?babel] 1\<close>
  have untagged: \<open>\<not> truthy (attr (lang ?pt))\<close>
    by (simp add: inlinePart_def)
  have entry: \<open>compilers ?w ''babel'' = Some ?babel\<close>
    by (simp add: exampleWorld_def)
  have with_babel:
    \<open>fst (processScript (exampleModule True (scriptOnly ?pt)) ?w (Some ?pt) ''/app/a.vue'')
       = Fulfilled 2 (SetScript (Str ''module.exports = {}''))\<close>
    using C10_untagged_script_uses_babel [OF untagged entry,
        of \<open>exampleModule True (scriptOnly ?pt)\<close> \<open>''/app/a.vue''\<close>]
    by (simp add: exampleModule_def thenScript_def callTransform_def succeedingTransform_def)
  have without_babel:
    \<open>fst (processScript (exampleModule False (scriptOnly ?pt)) ?w (Some ?pt) ''/app/a.vue'')
       = Fulfilled 0 (SetScript (Str ''export default {}''))\<close>
    using C10_untagged_script_uses_babel [OF untagged entry,
        of \<open>exampleModule False (scriptOnly ?pt)\<close> \<open>''/app/a.vue''\<close>]
    by (simp add: exampleModule_def exampleWorld_def thenScript_def compileAsPromise_def
        getContent_def inlinePart_def registryLookup_def objectPrototype_def)
  from untagged entry with_babel without_babel show ?thesis by blast
qed

subsection \<open>The source-map builder without an incoming map\<close>

lemma generateSourceMap_without_incoming_map:
  assumes \<open>resolvedParts.inMap rp = None\<close>
  shows \<open>generateSourceMap m filePath document rp scr output =
           Inl (TypeError ''inMapConsumer.destroy'')\<close>
  using assms by (simp add: generateSourceMap_def Let_def)

text \<open>
  Claim C4 (the code departs from it). Source maps are asked for and the script compiler
  gave no incoming map: the builder adds its mappings and then calls
  \<^verbatim>\<open>inMapConsumer.destroy()\<close> on \<^verbatim>\<open>undefined\<close>, so it raises instead of returning the
  map, and the callback receives the error.
\<close>

theorem C4_no_incoming_map_fails:
  \<open>generateSourceMap (exampleModule False (scriptOnly (inlinePart ''x = 1''))) ''/app/a.vue''
     ''<script>x = 1</script>'' (resolve [SetScript (Str ''x = 1'')]) ''x = 1'' [] =
     Inl (TypeError ''inMapConsumer.destroy'') \<and>
   outcome (compile (exampleModule False (scriptOnly (inlinePart ''x = 1'')))
      (exampleWorld Map.empty Map.empty 1) production mapOptions
      ''<script>x = 1</script>'' ''/app/a.vue'' Map.empty) =
     CallbackError (TypeError ''inMapConsumer.destroy'')\<close>
  by code_simp

section \<open>Properties of the merge engine\<close>

subsection \<open>The shape of a run\<close>

lemma mergeParts_cache:
  \<open>fst (snd (mergeParts m e opts document filePath d i hs rp cache)) = cache(i \<mapsto> rp)\<close>
  by (simp add: mergeParts_def Let_def split: sum.splits prod.splits)

text \<open>
  A module that the merge produces ends with the scope-id line (when a style is scoped),
  the hot-reload block (in development) and the source-map comment (when a map was
  built).
\<close>

lemma mergeParts_result:
  assumes \<open>mergeParts m e opts document filePath d i hs rp cache = (CallbackResult out, c', effs)\<close>
  shows \<open>\<exists>pre disposeStyle mp.
           out = pre @ (if hs then attachScopeId i else []) @
             (if \<not> isProduction e \<and> \<not> isTest e \<and> \<not> isServer e
              then hotReload m i disposeStyle
                (updateAction (resolvedParts.script rp \<noteq> prevScript (cache i))
                  (\<not> strictEq (templateOf (resolvedParts.template rp)) (prevTemplate (cache i))) i)
              else []) @
             (case mp of Some g \<Rightarrow> NL @ toComment m g | None \<Rightarrow> [])\<close>
  using assms
  apply (simp add: mergeParts_def Let_def split: sum.splits prod.splits split del: if_split)
  apply (elim conjE)
  apply (drule sym [of _ out])
  apply (simp split del: if_split)
  apply (rule exI)+
  apply (rule refl)
  done

lemma mergeParts_hot:
  assumes \<open>mergeParts m e opts document filePath d i hs rp cache = (CallbackResult out, c', effs)\<close>
    and \<open>\<not> isProduction e\<close> \<open>\<not> isTest e\<close> \<open>\<not> isServer e\<close>
  shows \<open>\<exists>pre disposeStyle mp.
           out = pre @
             hotReload m i disposeStyle
               (updateAction (resolvedParts.script rp \<noteq> prevScript (cache i))
                  (\<not> strictEq (templateOf (resolvedParts.template rp)) (prevTemplate (cache i))) i)
             @ (case mp of Some g \<Rightarrow> NL @ toComment m g | None \<Rightarrow> [])\<close>
proof -
  from mergeParts_result [OF assms(1)] assms(2-4)
  obtain pre disposeStyle mp where
    \<open>out = (pre @ (if hs then attachScopeId i else [])) @
       hotReload m i disposeStyle
         (updateAction (resolvedParts.script rp \<noteq> prevScript (cache i))
           (\<not> strictEq (templateOf (resolvedParts.template rp)) (prevTemplate (cache i))) i) @
       (case mp of Some g \<Rightarrow> NL @ toComment m g | None \<Rightarrow> [])\<close>
    by auto
  then show ?thesis by blast
qed

lemma mergeParts_scope:
  assumes \<open>mergeParts m e opts document filePath d i True rp cache = (CallbackResult out, c', effs)\<close>
  shows \<open>\<exists>pre suf. out = pre @ attachScopeId i @ suf\<close>
proof -
  from mergeParts_result [OF assms]
  obtain pre suf where \<open>out = pre @ attachScopeId i @ suf\<close>
    by auto
  then show ?thesis by blast
qed

text \<open>A run that hands a module to the callback has gone through the merge.\<close>

lemma compile_result:
  assumes \<open>outcome (compile m w e opts document filePath cache) = CallbackResult out\<close>
  shows \<open>\<exists>d rp c' effs. parseComponent m document = Inr d \<and>
           resolved m w opts document filePath = Some rp \<and>
           mergeParts m e opts document filePath d (scopeId m filePath)
             (list_ex scoped (parts.styles d)) rp cache = (CallbackResult out, c', effs)\<close>
  using assms
  by (auto simp: compile_def resolved_def Let_def split: sum.splits promise.splits prod.splits)

text \<open>A run whose parts all resolve stores them in the cache under the scope id.\<close>

lemma compile_cache:
  assumes \<open>resolved m w opts document filePath = Some rp\<close>
  shows \<open>cacheAfter (compile m w e opts document filePath cache) =
           cache(scopeId m filePath \<mapsto> rp)\<close>
proof -
  from assms obtain d t ws where
    d: \<open>parseComponent m document = Inr d\<close> and
    ws: \<open>promiseAll (map (\<lambda>(p, effs, logs). p)
            (processParts m w opts d filePath (scopeId m filePath))) = Fulfilled t ws\<close>
    and rp: \<open>rp = resolve ws\<close>
    by (auto simp: resolved_def split: sum.splits promise.splits)
  have \<open>cacheAfter (compile m w e opts document filePath cache) =
     fst (snd (mergeParts m e opts document filePath d (scopeId m filePath)
                 (list_ex scoped (parts.styles d)) rp cache))\<close>
    using d ws rp by (simp add: compile_def Let_def split: prod.splits)
  then show ?thesis by (simp add: mergeParts_cache)
qed

text \<open>The update action of the second of two consecutive runs on the same file.\<close>

lemma second_run_hot_block:
  assumes first: \<open>resolved m w1 opts1 document1 filePath = Some rp1\<close>
    and second: \<open>resolved m w2 opts2 document2 filePath = Some rp2\<close>
    and hot: \<open>\<not> isProduction e2\<close> \<open>\<not> isTest e2\<close> \<open>\<not> isServer e2\<close>
    and out: \<open>outcome (compile m w2 e2 opts2 document2 filePath
                 (cacheAfter (compile m w1 e1 opts1 document1 filePath cache0)))
               = CallbackResult out2\<close>
  shows \<open>\<exists>pre disposeStyle mp.
           out2 = pre @
             hotReload m (scopeId m filePath) disposeStyle
               (updateAction (resolvedParts.script rp2 \<noteq> resolvedParts.script rp1)
                  (\<not> strictEq (templateOf (resolvedParts.template rp2))
                        (templateOf (resolvedParts.template rp1)))
                  (scopeId m filePath))
             @ (case mp of Some g \<Rightarrow> NL @ toComment m g | None \<Rightarrow> [])\<close>
proof -
  let ?i = \<open>scopeId m filePath\<close>
  let ?cache1 = \<open>cacheAfter (compile m w1 e1 opts1 document1 filePath cache0)\<close>
  have prev: \<open>?cache1 ?i = Some rp1\<close>
    using compile_cache [OF first] by simp
  from compile_result [OF out] second obtain d c' effs where
    \<open>mergeParts m e2 opts2 document2 filePath d ?i (list_ex scoped (parts.styles d)) rp2 ?cache1
       = (CallbackResult out2, c', effs)\<close>
    by auto
  from mergeParts_hot [OF this hot] show ?thesis
    by (simp add: prev prevScript_def prevTemplate_def)
qed


subsection \<open>Hot reload\<close>

lemmas run_defs =
  resolved_def compile_def processParts_def processTemplate_def processScript_def
  processStyle_def thenScript_def thenTemplate_def thenStyle_def compileAsPromise_def
  registryLookup_def objectPrototype_def callTransform_def codeFrameLog_def getContent_def loadSrc_def scriptLang_def promiseAll_def
  scopeId_def exampleModule_def exampleWorld_def scriptOnly_def styleOnly_def inlinePart_def
  srcPart_def Let_def

text \<open>
  Claim C6. Two consecutive runs on the same file whose parts all resolve: when the
  resolved script of the second differs from that of the first, the hot-reload block of
  the second module (emitted when not production, not test and not server) has the
  full-reload call as its update action, whatever the templates are. The block is the
  last text of the module before the source-map comment.
\<close>

theorem C6_script_change_reloads:
  assumes first: \<open>resolved m w1 opts1 document1 filePath = Some rp1\<close>
    and second: \<open>resolved m w2 opts2 document2 filePath = Some rp2\<close>
    and changed: \<open>resolvedParts.script rp2 \<noteq> resolvedParts.script rp1\<close>
    and hot: \<open>\<not> isProduction e2\<close> \<open>\<not> isTest e2\<close> \<open>\<not> isServer e2\<close>
    and out: \<open>outcome (compile m w2 e2 opts2 document2 filePath
                 (cacheAfter (compile m w1 e1 opts1 document1 filePath cache0)))
               = CallbackResult out2\<close>
  shows \<open>\<exists>pre disposeStyle mp.
           out2 = pre @
             ''if (module.hot) {(function () {'' @
             ''  var hotAPI = require("'' @ hotReloadAPIPath m @ ''")'' @ [CHR 0x0A] @
             ''  hotAPI.install(require("vue"), true)'' @ [CHR 0x0A] @
             ''  if (!hotAPI.compatible) return'' @ [CHR 0x0A] @
             ''  module.hot.accept()'' @ [CHR 0x0A] @
             (if disposeStyle then ''  module.hot.dispose(__vueify_style_dispose__)'' @ [CHR 0x0A] else []) @
             ''  if (!module.hot.data) {'' @ [CHR 0x0A] @
             ''    hotAPI.createRecord("data-v-'' @ genId m filePath @ ''", __vue__options__)'' @ [CHR 0x0A] @
             ''  } else {'' @ [CHR 0x0A] @
             ''    hotAPI.reload("data-v-'' @ genId m filePath @ ''", __vue__options__)'' @ [CHR 0x0A] @
             ''  }'' @ [CHR 0x0A] @
             ''})()}'' @
             (case mp of Some g \<Rightarrow> [CHR 0x0A] @ toComment m g | None \<Rightarrow> [])\<close>
proof -
  have block:
    \<open>hotReload m (scopeId m filePath) disposeStyle (reloadCall (scopeId m filePath)) =
       ''if (module.hot) {(function () {'' @
       ''  var hotAPI = require("'' @ hotReloadAPIPath m @ ''")'' @ [CHR 0x0A] @
       ''  hotAPI.install(require("vue"), true)'' @ [CHR 0x0A] @
       ''  if (!hotAPI.compatible) return'' @ [CHR 0x0A] @
       ''  module.hot.accept()'' @ [CHR 0x0A] @
       (if disposeStyle then ''  module.hot.dispose(__vueify_style_dispose__)'' @ [CHR 0x0A] else []) @
       ''  if (!module.hot.data) {'' @ [CHR 0x0A] @
       ''    hotAPI.createRecord("data-v-'' @ genId m filePath @ ''", __vue__options__)'' @ [CHR 0x0A] @
       ''  } else {'' @ [CHR 0x0A] @
       ''    hotAPI.reload("data-v-'' @ genId m filePath @ ''", __vue__options__)'' @ [CHR 0x0A] @
       ''  }'' @ [CHR 0x0A] @
       ''})()}''\<close>
    for disposeStyle
    by (simp add: hotReload_def reloadCall_def scopeId_def NL_def)
  from second_run_hot_block [OF first second hot out] changed
  obtain pre disposeStyle mp where
    \<open>out2 = pre @
       hotReload m (scopeId m filePath) disposeStyle (reloadCall (scopeId m filePath)) @
       (case mp of Some g \<Rightarrow> NL @ toComment m g | None \<Rightarrow> [])\<close>
    by (auto simp: updateAction_def)
  then show ?thesis unfolding block NL_def append_assoc by blast
qed

theorem C6_script_change_reloads_witness:
  \<open>(let m = exampleModule False (scriptOnly (srcPart ''a.js''));
        w1 = exampleWorld [''/app/a.js'' \<mapsto> ''x = 1''] Map.empty 1;
        w2 = exampleWorld [''/app/a.js'' \<mapsto> ''x = 2''] Map.empty 1;
        document = ''<script src="a.js"></script>'';
        out2 =
          '';(function(){'' @ [CHR 0x0A] @ ''x = 2'' @ [CHR 0x0A] @ ''})()'' @ [CHR 0x0A] @
          ''if (module.exports.__esModule) module.exports = module.exports.default'' @ [CHR 0x0A] @
          ''var __vue__options__ = (typeof module.exports === "function"? module.exports.options: module.exports)'' @ [CHR 0x0A] @
          ''if (module.hot) {(function () {'' @
          ''  var hotAPI = require("vue-hot-reload-api")'' @ [CHR 0x0A] @
          ''  hotAPI.install(require("vue"), true)'' @ [CHR 0x0A] @
          ''  if (!hotAPI.compatible) return'' @ [CHR 0x0A] @
          ''  module.hot.accept()'' @ [CHR 0x0A] @
          ''  if (!module.hot.data) {'' @ [CHR 0x0A] @
          ''    hotAPI.createRecord("data-v-7ba5bd90", __vue__options__)'' @ [CHR 0x0A] @
          ''  } else {'' @ [CHR 0x0A] @
          ''    hotAPI.reload("data-v-7ba5bd90", __vue__options__)'' @ [CHR 0x0A] @
          ''  }'' @ [CHR 0x0A] @
          ''})()}''
    in resolved m w1 plainOptions document ''/app/a.vue''
         = Some (resolve [NoWrite, SetScript (Str ''x = 1'')]) \<and>
       resolved m w2 plainOptions document ''/app/a.vue''
         = Some (resolve [NoWrite, SetScript (Str ''x = 2'')]) \<and>
       outcome (compile m w2 development plainOptions document ''/app/a.vue''
          (cacheAfter (compile m w1 development plainOptions document ''/app/a.vue''
             Map.empty))) = CallbackResult out2 \<and>
       (\<exists>pre disposeStyle mp.
          out2 = pre @
            ''if (module.hot) {(function () {'' @
            ''  var hotAPI = require("'' @ hotReloadAPIPath m @ ''")'' @ [CHR 0x0A] @
            ''  hotAPI.install(require("vue"), true)'' @ [CHR 0x0A] @
            ''  if (!hotAPI.compatible) return'' @ [CHR 0x0A] @
            ''  module.hot.accept()'' @ [CHR 0x0A] @
            (if disposeStyle then ''  module.hot.dispose(__vueify_style_dispose__)'' @ [CHR 0x0A] else []) @
            ''  if (!module.hot.data) {'' @ [CHR 0x0A] @
            ''    hotAPI.createRecord("data-v-'' @ genId m ''/app/a.vue'' @ ''", __vue__options__)'' @ [CHR 0x0A] @
            ''  } else {'' @ [CHR 0x0A] @
            ''    hotAPI.reload("data-v-'' @ genId m ''/app/a.vue'' @ ''", __vue__options__)'' @ [CHR 0x0A] @
            ''  }'' @ [CHR 0x0A] @
            ''})()}'' @
            (case mp of Some g \<Rightarrow> [CHR 0x0A] @ toComment m g | None \<Rightarrow> [])))\<close>
proof -
  let ?m = \<open>exampleModule False (scriptOnly (srcPart ''a.js''))\<close>
  let ?w1 = \<open>exampleWorld [''/app/a.js'' \<mapsto> ''x = 1''] Map.empty 1\<close>
  let ?w2 = \<open>exampleWorld [''/app/a.js'' \<mapsto> ''x = 2''] Map.empty 1\<close>
  let ?doc = \<open>''<script src="a.js"></script>''\<close>
  let ?out2 = \<open>
          '';(function(){'' @ [CHR 0x0A] @ ''x = 2'' @ [CHR 0x0A] @ ''})()'' @ [CHR 0x0A] @
          ''if (module.exports.__esModule) module.exports = module.exports.default'' @ [CHR 0x0A] @
          ''var __vue__options__ = (typeof module.exports === "function"? module.exports.options: module.exports)'' @ [CHR 0x0A] @
          ''if (module.hot) {(function () {'' @
          ''  var hotAPI = require("vue-hot-reload-api")'' @ [CHR 0x0A] @
          ''  hotAPI.install(require("vue"), true)'' @ [CHR 0x0A] @
          ''  if (!hotAPI.compatible) return'' @ [CHR 0x0A] @
          ''  module.hot.accept()'' @ [CHR 0x0A] @
          ''  if (!module.hot.data) {'' @ [CHR 0x0A] @
          ''    hotAPI.createRecord("data-v-7ba5bd90", __vue__options__)'' @ [CHR 0x0A] @
          ''  } else {'' @ [CHR 0x0A] @
          ''    hotAPI.reload("data-v-7ba5bd90", __vue__options__)'' @ [CHR 0x0A] @
          ''  }'' @ [CHR 0x0A] @
          ''})()}''\<close>
  have first: \<open>resolved ?m ?w1 plainOptions ?doc ''/app/a.vue''
      = Some (resolve [NoWrite, SetScript (Str ''x = 1'')])\<close>
    by (simp add: run_defs)
  have second: \<open>resolved ?m ?w2 plainOptions ?doc ''/app/a.vue''
      = Some (resolve [NoWrite, SetScript (Str ''x = 2'')])\<close>
    by (simp add: run_defs)
  have changed: \<open>resolvedParts.script (resolve [NoWrite, SetScript (Str ''x = 2'')])
      \<noteq> resolvedParts.script (resolve [NoWrite, SetScript (Str ''x = 1'')])\<close>
    by (simp add: resolve_def)
  have hot: \<open>\<not> isProduction development\<close> \<open>\<not> isTest development\<close> \<open>\<not> isServer development\<close>
    by (simp_all add: development_def)
  have out: \<open>outcome (compile ?m ?w2 development plainOptions ?doc ''/app/a.vue''
      (cacheAfter (compile ?m ?w1 development plainOptions ?doc ''/app/a.vue'' Map.empty)))
     = CallbackResult ?out2\<close>
    by code_simp
  from C6_script_change_reloads [OF first second changed hot out] first second out
  show ?thesis unfolding Let_def by blast
qed

text \<open>
  Claim C1, as stated, fails: the document and the file path are the same in both runs,
  but the file that the script part refers to has changed on disk in between, so the
  resolved script differs and the second module asks for a full reload.
\<close>

theorem C1_same_document_reloads_counterexample:
  \<open>(let m = exampleModule False (scriptOnly (srcPart ''main.js''));
        document = ''<script src="main.js"></script>'';
        filePath = ''/app/a.vue'';
        first = compile m (exampleWorld [''/app/main.js'' \<mapsto> ''a()''] Map.empty 1)
                  development plainOptions document filePath Map.empty;
        second = compile m (exampleWorld [''/app/main.js'' \<mapsto> ''b()''] Map.empty 1)
                   development plainOptions document filePath (cacheAfter first)
    in outcome second =
         CallbackResult
           ('';(function(){'' @ [CHR 0x0A] @ ''b()'' @ [CHR 0x0A] @ ''})()'' @ [CHR 0x0A] @
            ''if (module.exports.__esModule) module.exports = module.exports.default'' @ [CHR 0x0A] @
            ''var __vue__options__ = (typeof module.exports === "function"? module.exports.options: module.exports)'' @ [CHR 0x0A] @
            ''if (module.hot) {(function () {'' @
            ''  var hotAPI = require("vue-hot-reload-api")'' @ [CHR 0x0A] @
            ''  hotAPI.install(require("vue"), true)'' @ [CHR 0x0A] @
            ''  if (!hotAPI.compatible) return'' @ [CHR 0x0A] @
            ''  module.hot.accept()'' @ [CHR 0x0A] @
            ''  if (!module.hot.data) {'' @ [CHR 0x0A] @
            ''    hotAPI.createRecord("data-v-7ba5bd90", __vue__options__)'' @ [CHR 0x0A] @
            ''  } else {'' @ [CHR 0x0A] @
            ''    hotAPI.reload("data-v-7ba5bd90", __vue__options__)'' @ [CHR 0x0A] @
            ''  }'' @ [CHR 0x0A] @
            ''})()}''))\<close>
  by code_simp

text \<open>
  The templates of two runs are compared as objects. When the template translator
  returns a new object in each run, an unchanged template counts as changed and the
  second module asks for a re-render.
\<close>

lemma new_template_object_rerenders:
  \<open>(let m = exampleModule False (templateOnly (inlinePart ''<p>hello</p>''));
        document = ''<template><p>hello</p></template>'';
        filePath = ''/app/a.vue'';
        first = compile m (exampleWorld Map.empty Map.empty 1)
                  development plainOptions document filePath Map.empty;
        second = compile m (exampleWorld Map.empty Map.empty 2)
                   development plainOptions document filePath (cacheAfter first)
    in outcome second =
         CallbackResult
           (optionsBinding @ functionalGuard @
            attachTemplate \<lparr>ref = 2, render = ''function(){}'', staticRenderFns = ''[]''\<rparr> @
            hotReload m ''data-v-7ba5bd90'' False (rerenderCall ''data-v-7ba5bd90'')))\<close>
  by code_simp

text \<open>
  Claim C1, amended. Two consecutive runs on the same file whose parts all resolve: when
  the resolved script of the second is strictly equal to that of the first and the
  resolved templates are strictly equal (both \<^verbatim>\<open>null\<close>, or the same object), the
  hot-reload block of the second module has no update action.
\<close>

theorem C1_unchanged_parts_no_update:
  assumes first: \<open>resolved m w1 opts1 document1 filePath = Some rp1\<close>
    and second: \<open>resolved m w2 opts2 document2 filePath = Some rp2\<close>
    and same_script: \<open>resolvedParts.script rp2 = resolvedParts.script rp1\<close>
    and same_template: \<open>strictEq (templateOf (resolvedParts.template rp2))
                           (templateOf (resolvedParts.template rp1))\<close>
    and hot: \<open>\<not> isProduction e2\<close> \<open>\<not> isTest e2\<close> \<open>\<not> isServer e2\<close>
    and out: \<open>outcome (compile m w2 e2 opts2 document2 filePath
                 (cacheAfter (compile m w1 e1 opts1 document1 filePath cache0)))
               = CallbackResult out2\<close>
  shows \<open>\<exists>pre disposeStyle mp.
           out2 = pre @
             ''if (module.hot) {(function () {'' @
             ''  var hotAPI = require("'' @ hotReloadAPIPath m @ ''")'' @ [CHR 0x0A] @
             ''  hotAPI.install(require("vue"), true)'' @ [CHR 0x0A] @
             ''  if (!hotAPI.compatible) return'' @ [CHR 0x0A] @
             ''  module.hot.accept()'' @ [CHR 0x0A] @
             (if disposeStyle then ''  module.hot.dispose(__vueify_style_dispose__)'' @ [CHR 0x0A] else []) @
             ''  if (!module.hot.data) {'' @ [CHR 0x0A] @
             ''    hotAPI.createRecord("data-v-'' @ genId m filePath @ ''", __vue__options__)'' @ [CHR 0x0A] @
             ''  } else {'' @ [CHR 0x0A] @
             ''  }'' @ [CHR 0x0A] @
             ''})()}'' @
             (case mp of Some g \<Rightarrow> [CHR 0x0A] @ toComment m g | None \<Rightarrow> [])\<close>
proof -
  have block:
    \<open>hotReload m (scopeId m filePath) disposeStyle [] =
         ''if (module.hot) {(function () {'' @
         ''  var hotAPI = require("'' @ hotReloadAPIPath m @ ''")'' @ [CHR 0x0A] @
         ''  hotAPI.install(require("vue"), true)'' @ [CHR 0x0A] @
         ''  if (!hotAPI.compatible) return'' @ [CHR 0x0A] @
         ''  module.hot.accept()'' @ [CHR 0x0A] @
         (if disposeStyle then ''  module.hot.dispose(__vueify_style_dispose__)'' @ [CHR 0x0A] else []) @
         ''  if (!module.hot.data) {'' @ [CHR 0x0A] @
         ''    hotAPI.createRecord("data-v-'' @ genId m filePath @ ''", __vue__options__)'' @ [CHR 0x0A] @
         ''  } else {'' @ [CHR 0x0A] @
         ''  }'' @ [CHR 0x0A] @
         ''})()}''\<close>
    for disposeStyle
    by (simp add: hotReload_def scopeId_def NL_def)
  from second_run_hot_block [OF first second hot out] same_script same_template
  obtain pre disposeStyle mp where
    \<open>out2 = pre @ hotReload m (scopeId m filePath) disposeStyle [] @
       (case mp of Some g \<Rightarrow> NL @ toComment m g | None \<Rightarrow> [])\<close>
    by (auto simp: updateAction_def)
  then show ?thesis unfolding block NL_def append_assoc by blast
qed

theorem C1_unchanged_parts_no_update_witness:
  \<open>(let m = exampleModule False (scriptOnly (inlinePart ''run()''));
        w = exampleWorld Map.empty Map.empty 1;
        document = ''<script>run()</script>'';
        out2 =
          '';(function(){'' @ [CHR 0x0A] @ ''run()'' @ [CHR 0x0A] @ ''})()'' @ [CHR 0x0A] @
          ''if (module.exports.__esModule) module.exports = module.exports.default'' @ [CHR 0x0A] @
          ''var __vue__options__ = (typeof module.exports === "function"? module.exports.options: module.exports)'' @ [CHR 0x0A] @
          ''if (module.hot) {(function () {'' @
          ''  var hotAPI = require("vue-hot-reload-api")'' @ [CHR 0x0A] @
          ''  hotAPI.install(require("vue"), true)'' @ [CHR 0x0A] @
          ''  if (!hotAPI.compatible) return'' @ [CHR 0x0A] @
          ''  module.hot.accept()'' @ [CHR 0x0A] @
          ''  if (!module.hot.data) {'' @ [CHR 0x0A] @
          ''    hotAPI.createRecord("data-v-7ba5bd90", __vue__options__)'' @ [CHR 0x0A] @
          ''  } else {'' @ [CHR 0x0A] @
          ''  }'' @ [CHR 0x0A] @
          ''})()}''
    in resolved m w plainOptions document ''/app/a.vue''
         = Some (resolve [NoWrite, SetScript (Str ''run()'')]) \<and>
       outcome (compile m w development plainOptions document ''/app/a.vue''
          (cacheAfter (compile m w development plainOptions document ''/app/a.vue''
             Map.empty))) = CallbackResult out2 \<and>
       (\<exists>pre disposeStyle mp.
          out2 = pre @
            ''if (module.hot) {(function () {'' @
            ''  var hotAPI = require("'' @ hotReloadAPIPath m @ ''")'' @ [CHR 0x0A] @
            ''  hotAPI.install(require("vue"), true)'' @ [CHR 0x0A] @
            ''  if (!hotAPI.compatible) return'' @ [CHR 0x0A] @
            ''  module.hot.accept()'' @ [CHR 0x0A] @
            (if disposeStyle then ''  module.hot.dispose(__vueify_style_dispose__)'' @ [CHR 0x0A] else []) @
            ''  if (!module.hot.data) {'' @ [CHR 0x0A] @
            ''    hotAPI.createRecord("data-v-'' @ genId m ''/app/a.vue'' @ ''", __vue__options__)'' @ [CHR 0x0A] @
            ''  } else {'' @ [CHR 0x0A] @
            ''  }'' @ [CHR 0x0A] @
            ''})()}'' @
            (case mp of Some g \<Rightarrow> [CHR 0x0A] @ toComment m g | None \<Rightarrow> [])))\<close>
proof -
  let ?m = \<open>exampleModule False (scriptOnly (inlinePart ''run()''))\<close>
  let ?w = \<open>exampleWorld Map.empty Map.empty 1\<close>
  let ?doc = \<open>''<script>run()</script>''\<close>
  let ?rp = \<open>resolve [NoWrite, SetScript (Str ''run()'')]\<close>
  let ?out2 = \<open>
          '';(function(){'' @ [CHR 0x0A] @ ''run()'' @ [CHR 0x0A] @ ''})()'' @ [CHR 0x0A] @
          ''if (module.exports.__esModule) module.exports = module.exports.default'' @ [CHR 0x0A] @
          ''var __vue__options__ = (typeof module.exports === "function"? module.exports.options: module.exports)'' @ [CHR 0x0A] @
          ''if (module.hot) {(function () {'' @
          ''  var hotAPI = require("vue-hot-reload-api")'' @ [CHR 0x0A] @
          ''  hotAPI.install(require("vue"), true)'' @ [CHR 0x0A] @
          ''  if (!hotAPI.compatible) return'' @ [CHR 0x0A] @
          ''  module.hot.accept()'' @ [CHR 0x0A] @
          ''  if (!module.hot.data) {'' @ [CHR 0x0A] @
          ''    hotAPI.createRecord("data-v-7ba5bd90", __vue__options__)'' @ [CHR 0x0A] @
          ''  } else {'' @ [CHR 0x0A] @
          ''  }'' @ [CHR 0x0A] @
          ''})()}''\<close>
  have run: \<open>resolved ?m ?w plainOptions ?doc ''/app/a.vue'' = Some ?rp\<close>
    by (simp add: run_defs)
  have same_template:
    \<open>strictEq (templateOf (resolvedParts.template ?rp)) (templateOf (resolvedParts.template ?rp))\<close>
    by (simp add: resolve_def)
  have hot: \<open>\<not> isProduction development\<close> \<open>\<not> isTest development\<close> \<open>\<not> isServer development\<close>
    by (simp_all add: development_def)
  have out: \<open>outcome (compile ?m ?w development plainOptions ?doc ''/app/a.vue''
      (cacheAfter (compile ?m ?w development plainOptions ?doc ''/app/a.vue'' Map.empty)))
     = CallbackResult ?out2\<close>
    by code_simp
  from C1_unchanged_parts_no_update [OF run run refl same_template hot out] run out
  show ?thesis unfolding Let_def by blast
qed

subsection \<open>The scope id\<close>

text \<open>
  Claim C7. When a style part of the document is scoped, the module contains the line
  that attaches the scope id to the options binding; the scope id is
  \<^verbatim>\<open>'data-v-' + genId(filePath)\<close>, so two compilations of the same file path, of any
  contents and in any environment, attach the same id.
\<close>

theorem C7_scope_id_attached:
  assumes \<open>parseComponent m document1 = Inr d1\<close> \<open>list_ex scoped (parts.styles d1)\<close>
    and \<open>outcome (compile m w1 e1 opts1 document1 filePath cache1) = CallbackResult out1\<close>
    and \<open>parseComponent m document2 = Inr d2\<close> \<open>list_ex scoped (parts.styles d2)\<close>
    and \<open>outcome (compile m w2 e2 opts2 document2 filePath cache2) = CallbackResult out2\<close>
  shows \<open>\<exists>pre1 suf1 pre2 suf2.
           out1 = pre1 @ ''__vue__options__._scopeId = "data-v-'' @ genId m filePath @ ''"'' @ [CHR 0x0A] @ suf1 \<and>
           out2 = pre2 @ ''__vue__options__._scopeId = "data-v-'' @ genId m filePath @ ''"'' @ [CHR 0x0A] @ suf2\<close>
proof -
  let ?i = \<open>scopeId m filePath\<close>
  have line: \<open>attachScopeId ?i =
      ''__vue__options__._scopeId = "data-v-'' @ genId m filePath @ ''"'' @ [CHR 0x0A]\<close>
    by (simp add: attachScopeId_def scopeId_def NL_def)
  from compile_result [OF assms(3)] assms(1,2) obtain rp1 c1 effs1 where
    \<open>mergeParts m e1 opts1 document1 filePath d1 ?i True rp1 cache1
       = (CallbackResult out1, c1, effs1)\<close>
    by auto
  from mergeParts_scope [OF this] obtain pre1 suf1 where
    o1: \<open>out1 = pre1 @ attachScopeId ?i @ suf1\<close> by blast
  from compile_result [OF assms(6)] assms(4,5) obtain rp2 c2 effs2 where
    \<open>mergeParts m e2 opts2 document2 filePath d2 ?i True rp2 cache2
       = (CallbackResult out2, c2, effs2)\<close>
    by auto
  from mergeParts_scope [OF this] obtain pre2 suf2 where
    o2: \<open>out2 = pre2 @ attachScopeId ?i @ suf2\<close> by blast
  from o1 o2 show ?thesis unfolding line append_assoc by blast
qed

theorem C7_scope_id_attached_witness:
  \<open>(let table = [''<script>a()</script><style scoped>p{}</style>'' \<mapsto>
                    scriptAndStyle (inlinePart ''a()'') (scopedStyle ''p{}''),
                  ''<style scoped>div{}</style>'' \<mapsto> styleOnly (scopedStyle ''div{}'')];
        m = parsingModule table;
        w = exampleWorld Map.empty Map.empty 1;
        out1 =
          '';(function(){'' @ [CHR 0x0A] @ ''a()'' @ [CHR 0x0A] @ ''})()'' @ [CHR 0x0A] @
          ''if (module.exports.__esModule) module.exports = module.exports.default'' @ [CHR 0x0A] @
          ''var __vue__options__ = (typeof module.exports === "function"? module.exports.options: module.exports)'' @ [CHR 0x0A] @
          ''__vue__options__._scopeId = "data-v-7ba5bd90"'' @ [CHR 0x0A];
        out2 =
          ''var __vueify_style_dispose__ = require("vueify/lib/insert-css").insert("div{}")'' @ [CHR 0x0A] @
          ''var __vue__options__ = (typeof module.exports === "function"? module.exports.options: module.exports)'' @ [CHR 0x0A] @
          ''__vue__options__._scopeId = "data-v-7ba5bd90"'' @ [CHR 0x0A] @
          ''if (module.hot) {(function () {'' @
          ''  var hotAPI = require("vue-hot-reload-api")'' @ [CHR 0x0A] @
          ''  hotAPI.install(require("vue"), true)'' @ [CHR 0x0A] @
          ''  if (!hotAPI.compatible) return'' @ [CHR 0x0A] @
          ''  module.hot.accept()'' @ [CHR 0x0A] @
          ''  module.hot.dispose(__vueify_style_dispose__)'' @ [CHR 0x0A] @
          ''  if (!module.hot.data) {'' @ [CHR 0x0A] @
          ''    hotAPI.createRecord("data-v-7ba5bd90", __vue__options__)'' @ [CHR 0x0A] @
          ''  } else {'' @ [CHR 0x0A] @
          ''    hotAPI.reload("data-v-7ba5bd90", __vue__options__)'' @ [CHR 0x0A] @
          ''  }'' @ [CHR 0x0A] @
          ''})()}''
    in outcome (compile m w production extractingOptions
         ''<script>a()</script><style scoped>p{}</style>'' ''/app/a.vue'' Map.empty)
         = CallbackResult out1 \<and>
       outcome (compile m w development plainOptions
         ''<style scoped>div{}</style>'' ''/app/a.vue'' Map.empty)
         = CallbackResult out2 \<and>
       (\<exists>pre1 suf1 pre2 suf2.
          out1 = pre1 @ ''__vue__options__._scopeId = "data-v-'' @ genId m ''/app/a.vue'' @ ''"'' @ [CHR 0x0A] @ suf1 \<and>
          out2 = pre2 @ ''__vue__options__._scopeId = "data-v-'' @ genId m ''/app/a.vue'' @ ''"'' @ [CHR 0x0A] @ suf2))\<close>
proof -
  let ?doc1 = \<open>''<script>a()</script><style scoped>p{}</style>''\<close>
  let ?doc2 = \<open>''<style scoped>div{}</style>''\<close>
  let ?d1 = \<open>scriptAndStyle (inlinePart ''a()'') (scopedStyle ''p{}'')\<close>
  let ?d2 = \<open>styleOnly (scopedStyle ''div{}'')\<close>
  let ?m = \<open>parsingModule [?doc1 \<mapsto> ?d1, ?doc2 \<mapsto> ?d2]\<close>
  let ?w = \<open>exampleWorld Map.empty Map.empty 1\<close>
  let ?out1 = \<open>
          '';(function(){'' @ [CHR 0x0A] @ ''a()'' @ [CHR 0x0A] @ ''})()'' @ [CHR 0x0A] @
          ''if (module.exports.__esModule) module.exports = module.exports.default'' @ [CHR 0x0A] @
          ''var __vue__options__ = (typeof module.exports === "function"? module.exports.options: module.exports)'' @ [CHR 0x0A] @
          ''__vue__options__._scopeId = "data-v-7ba5bd90"'' @ [CHR 0x0A]\<close>
  let ?out2 = \<open>
          ''var __vueify_style_dispose__ = require("vueify/lib/insert-css").insert("div{}")'' @ [CHR 0x0A] @
          ''var __vue__options__ = (typeof module.exports === "function"? module.exports.options: module.exports)'' @ [CHR 0x0A] @
          ''__vue__options__._scopeId = "data-v-7ba5bd90"'' @ [CHR 0x0A] @
          ''if (module.hot) {(function () {'' @
          ''  var hotAPI = require("vue-hot-reload-api")'' @ [CHR 0x0A] @
          ''  hotAPI.install(require("vue"), true)'' @ [CHR 0x0A] @
          ''  if (!hotAPI.compatible) return'' @ [CHR 0x0A] @
          ''  module.hot.accept()'' @ [CHR 0x0A] @
          ''  module.hot.dispose(__vueify_style_dispose__)'' @ [CHR 0x0A] @
          ''  if (!module.hot.data) {'' @ [CHR 0x0A] @
          ''    hotAPI.createRecord("data-v-7ba5bd90", __vue__options__)'' @ [CHR 0x0A] @
          ''  } else {'' @ [CHR 0x0A] @
          ''    hotAPI.reload("data-v-7ba5bd90", __vue__options__)'' @ [CHR 0x0A] @
          ''  }'' @ [CHR 0x0A] @
          ''})()}''\<close>
  have p1: \<open>parseComponent ?m ?doc1 = Inr ?d1\<close>
    by (simp add: parsingModule_def)
  have s1: \<open>list_ex scoped (parts.styles ?d1)\<close>
    by (simp add: scriptAndStyle_def scopedStyle_def)
  have o1: \<open>outcome (compile ?m ?w production extractingOptions ?doc1 ''/app/a.vue'' Map.empty)
         = CallbackResult ?out1\<close>
    by code_simp
  have p2: \<open>parseComponent ?m ?doc2 = Inr ?d2\<close>
    by (simp add: parsingModule_def)
  have s2: \<open>list_ex scoped (parts.styles ?d2)\<close>
    by (simp add: styleOnly_def scopedStyle_def)
  have o2: \<open>outcome (compile ?m ?w development plainOptions ?doc2 ''/app/a.vue'' Map.empty)
         = CallbackResult ?out2\<close>
    by code_simp
  from C7_scope_id_attached [OF p1 s1 o1 p2 s2 o2] o1 o2
  show ?thesis unfolding Let_def by blast
qed

subsection \<open>Documents with only a script\<close>

lemma thenScript_writes:
  assumes \<open>thenScript p = Fulfilled t wr\<close>
  shows \<open>(\<exists>c. wr = SetScript c) \<or> (\<exists>c mp. wr = SetScriptMap c mp)\<close>
  using assms
  by (auto simp: thenScript_def split: promise.splits result.splits jsval.splits)

lemma processScript_writes:
  assumes \<open>fst (processScript m w p filePath) = Fulfilled t wr\<close>
  shows \<open>wr = NoWrite \<or> (\<exists>c. wr = SetScript c) \<or> (\<exists>c mp. wr = SetScriptMap c mp)\<close>
  using assms thenScript_writes
  by (auto simp: processScript_def Let_def split: option.splits prod.splits)

lemma resolved_script_only:
  assumes parse: \<open>parseComponent m document = Inr d\<close>
    and only: \<open>parts.template d = None\<close> \<open>parts.styles d = []\<close>
    and res: \<open>resolved m w opts document filePath = Some rp\<close>
  shows \<open>resolvedParts.template rp = None \<and> resolvedParts.styles rp = []\<close>
proof (cases \<open>fst (processScript m w (parts.script d) filePath)\<close>)
  case Pending
  with parse only res show ?thesis
    by (simp add: resolved_def processParts_def processTemplate_def promiseAll_def
        split: prod.splits)
next
  case (Rejected t err)
  with parse only res show ?thesis
    by (simp add: resolved_def processParts_def processTemplate_def promiseAll_def
        split: prod.splits)
next
  case (Fulfilled t wr)
  with parse only res have \<open>rp = resolve [NoWrite, wr]\<close>
    by (auto simp: resolved_def processParts_def processTemplate_def promiseAll_def
        split: prod.splits)
  with processScript_writes [OF Fulfilled] show ?thesis
    by (auto simp: resolve_def)
qed

text \<open>
  Claim C3, as stated, fails: in development mode the module of a document that has only
  a script part ends with the hot-reload block.
\<close>

theorem C3_script_only_development_counterexample:
  \<open>(let m = exampleModule False (scriptOnly (inlinePart ''run()''));
        r = compile m (exampleWorld Map.empty Map.empty 1) development plainOptions
              ''<script>run()</script>'' ''/app/a.vue'' Map.empty
    in outcome r \<noteq>
         CallbackResult
             ('';(function(){'' @ [CHR 0x0A] @ ''run()'' @ [CHR 0x0A] @ ''})()'' @ [CHR 0x0A] @
              ''if (module.exports.__esModule) module.exports = module.exports.default'' @ [CHR 0x0A] @
              ''var __vue__options__ = (typeof module.exports === "function"? module.exports.options: module.exports)'' @ [CHR 0x0A]) \<and>
       outcome r =
         CallbackResult
             ('';(function(){'' @ [CHR 0x0A] @ ''run()'' @ [CHR 0x0A] @ ''})()'' @ [CHR 0x0A] @
              ''if (module.exports.__esModule) module.exports = module.exports.default'' @ [CHR 0x0A] @
              ''var __vue__options__ = (typeof module.exports === "function"? module.exports.options: module.exports)'' @ [CHR 0x0A] @
              ''if (module.hot) {(function () {'' @
              ''  var hotAPI = require("vue-hot-reload-api")'' @ [CHR 0x0A] @
              ''  hotAPI.install(require("vue"), true)'' @ [CHR 0x0A] @
              ''  if (!hotAPI.compatible) return'' @ [CHR 0x0A] @
              ''  module.hot.accept()'' @ [CHR 0x0A] @
              ''  if (!module.hot.data) {'' @ [CHR 0x0A] @
              ''    hotAPI.createRecord("data-v-7ba5bd90", __vue__options__)'' @ [CHR 0x0A] @
              ''  } else {'' @ [CHR 0x0A] @
              ''    hotAPI.reload("data-v-7ba5bd90", __vue__options__)'' @ [CHR 0x0A] @
              ''  }'' @ [CHR 0x0A] @
              ''})()}''))\<close>
  by code_simp

text \<open>
  Claim C3, amended. A document with only a script part, whose script resolves to a text
  that is not empty, compiled without source maps: the module is the script wrapped in
  the immediately invoked function (with the line that normalises the default export),
  then the options-binding line, and then, only when the run is not production, not test
  and not server, the hot-reload block without style disposal. Nothing else is emitted.
\<close>

theorem C3_script_only_module:
  assumes parse: \<open>parseComponent m document = Inr d\<close>
    and only: \<open>parts.template d = None\<close> \<open>parts.styles d = []\<close>
    and res: \<open>resolved m w opts document filePath = Some rp\<close>
    and scr: \<open>resolvedParts.script rp = Str scr\<close> \<open>scr \<noteq> []\<close>
    and nomap: \<open>\<not> sourceMap opts\<close>
  shows \<open>outcome (compile m w e opts document filePath cache) =
           CallbackResult
             ('';(function(){'' @ [CHR 0x0A] @ scr @ [CHR 0x0A] @ ''})()'' @ [CHR 0x0A] @
              ''if (module.exports.__esModule) module.exports = module.exports.default'' @ [CHR 0x0A] @
              ''var __vue__options__ = (typeof module.exports === "function"? module.exports.options: module.exports)'' @ [CHR 0x0A] @
              (if \<not> isProduction e \<and> \<not> isTest e \<and> \<not> isServer e
               then ''if (module.hot) {(function () {'' @
                    ''  var hotAPI = require("'' @ hotReloadAPIPath m @ ''")'' @ [CHR 0x0A] @
                    ''  hotAPI.install(require("vue"), true)'' @ [CHR 0x0A] @
                    ''  if (!hotAPI.compatible) return'' @ [CHR 0x0A] @
                    ''  module.hot.accept()'' @ [CHR 0x0A] @
                    ''  if (!module.hot.data) {'' @ [CHR 0x0A] @
                    ''    hotAPI.createRecord("data-v-'' @ genId m filePath @ ''", __vue__options__)'' @ [CHR 0x0A] @
                    ''  } else {'' @ [CHR 0x0A] @
                    (if Str scr \<noteq> prevScript (cache (''data-v-'' @ genId m filePath))
                then ''    hotAPI.reload("data-v-'' @ genId m filePath @ ''", __vue__options__)'' @ [CHR 0x0A]
                else if \<not> strictEq TNull (prevTemplate (cache (''data-v-'' @ genId m filePath)))
                then ''    hotAPI.rerender("data-v-'' @ genId m filePath @ ''", __vue__options__)'' @ [CHR 0x0A]
                else []) @
                    ''  }'' @ [CHR 0x0A] @
                    ''})()}''
               else []))\<close>
proof -
  from resolved_script_only [OF parse only res]
  have rp: \<open>resolvedParts.template rp = None\<close> \<open>resolvedParts.styles rp = []\<close> by simp_all
  from res parse obtain t ws where
    ws: \<open>promiseAll (map (\<lambda>(p, effs, logs). p)
            (processParts m w opts d filePath (scopeId m filePath))) = Fulfilled t ws\<close>
    and rpws: \<open>rp = resolve ws\<close>
    by (auto simp: resolved_def split: promise.splits)
  have \<open>outcome (compile m w e opts document filePath cache) =
     fst (mergeParts m e opts document filePath d (scopeId m filePath)
                 (list_ex scoped (parts.styles d)) rp cache)\<close>
    using parse ws rpws by (simp add: compile_def Let_def split: prod.splits)
  also have \<open>\<dots> = CallbackResult
             (wrapScript scr @ optionsBinding @
              (if \<not> isProduction e \<and> \<not> isTest e \<and> \<not> isServer e
               then hotReload m (scopeId m filePath) False
                      (updateAction (Str scr \<noteq> prevScript (cache (scopeId m filePath)))
                         (\<not> strictEq TNull (prevTemplate (cache (scopeId m filePath))))
                         (scopeId m filePath))
               else []))\<close>
    using rp scr nomap only
    by (simp add: mergeParts_def emitScript_def emitTemplate_def Let_def)
  also have \<open>\<dots> = CallbackResult
             ('';(function(){'' @ [CHR 0x0A] @ scr @ [CHR 0x0A] @ ''})()'' @ [CHR 0x0A] @
              ''if (module.exports.__esModule) module.exports = module.exports.default'' @ [CHR 0x0A] @
              ''var __vue__options__ = (typeof module.exports === "function"? module.exports.options: module.exports)'' @ [CHR 0x0A] @
              (if \<not> isProduction e \<and> \<not> isTest e \<and> \<not> isServer e
               then ''if (module.hot) {(function () {'' @
                    ''  var hotAPI = require("'' @ hotReloadAPIPath m @ ''")'' @ [CHR 0x0A] @
                    ''  hotAPI.install(require("vue"), true)'' @ [CHR 0x0A] @
                    ''  if (!hotAPI.compatible) return'' @ [CHR 0x0A] @
                    ''  module.hot.accept()'' @ [CHR 0x0A] @
                    ''  if (!module.hot.data) {'' @ [CHR 0x0A] @
                    ''    hotAPI.createRecord("data-v-'' @ genId m filePath @ ''", __vue__options__)'' @ [CHR 0x0A] @
                    ''  } else {'' @ [CHR 0x0A] @
                    (if Str scr \<noteq> prevScript (cache (''data-v-'' @ genId m filePath))
                then ''    hotAPI.reload("data-v-'' @ genId m filePath @ ''", __vue__options__)'' @ [CHR 0x0A]
                else if \<not> strictEq TNull (prevTemplate (cache (''data-v-'' @ genId m filePath)))
                then ''    hotAPI.rerender("data-v-'' @ genId m filePath @ ''", __vue__options__)'' @ [CHR 0x0A]
                else []) @
                    ''  }'' @ [CHR 0x0A] @
                    ''})()}''
               else []))\<close>
    by (simp add: wrapScript_def optionsBinding_def hotReload_def updateAction_def
        reloadCall_def rerenderCall_def scopeId_def NL_def)
  finally show ?thesis .
qed

theorem C3_script_only_module_witness:
  \<open>(let d = scriptOnly (inlinePart ''run()'');
        m = exampleModule False d;
        w = exampleWorld Map.empty Map.empty 1
    in parseComponent m ''<script>run()</script>'' = Inr d \<and>
       parts.template d = None \<and> parts.styles d = [] \<and>
       resolved m w plainOptions ''<script>run()</script>'' ''/app/a.vue''
         = Some (resolve [NoWrite, SetScript (Str ''run()'')]) \<and>
       \<not> sourceMap plainOptions \<and>
       outcome (compile m w production plainOptions ''<script>run()</script>'' ''/app/a.vue''
          Map.empty) =
         CallbackResult
             ('';(function(){'' @ [CHR 0x0A] @ ''run()'' @ [CHR 0x0A] @ ''})()'' @ [CHR 0x0A] @
              ''if (module.exports.__esModule) module.exports = module.exports.default'' @ [CHR 0x0A] @
              ''var __vue__options__ = (typeof module.exports === "function"? module.exports.options: module.exports)'' @ [CHR 0x0A]))\<close>
proof -
  let ?d = \<open>scriptOnly (inlinePart ''run()'')\<close>
  let ?m = \<open>exampleModule False ?d\<close>
  let ?w = \<open>exampleWorld Map.empty Map.empty 1\<close>
  let ?doc = \<open>''<script>run()</script>''\<close>
  let ?rp = \<open>resolve [NoWrite, SetScript (Str ''run()'')]\<close>
  have parse: \<open>parseComponent ?m ?doc = Inr ?d\<close>
    by (simp add: exampleModule_def)
  have only: \<open>parts.template ?d = None\<close> \<open>parts.styles ?d = []\<close>
    by (simp_all add: scriptOnly_def)
  have res: \<open>resolved ?m ?w plainOptions ?doc ''/app/a.vue'' = Some ?rp\<close>
    by (simp add: run_defs)
  have scr: \<open>resolvedParts.script ?rp = Str ''run()''\<close> \<open>''run()'' \<noteq> []\<close>
    by (simp_all add: resolve_def)
  have nomap: \<open>\<not> sourceMap plainOptions\<close>
    by (simp add: plainOptions_def)
  have \<open>outcome (compile ?m ?w production plainOptions ?doc ''/app/a.vue'' Map.empty) =
         CallbackResult
             ('';(function(){'' @ [CHR 0x0A] @ ''run()'' @ [CHR 0x0A] @ ''})()'' @ [CHR 0x0A] @
              ''if (module.exports.__esModule) module.exports = module.exports.default'' @ [CHR 0x0A] @
              ''var __vue__options__ = (typeof module.exports === "function"? module.exports.options: module.exports)'' @ [CHR 0x0A])\<close>
    using C3_script_only_module [OF parse only res scr nomap, of production Map.empty]
    by (simp add: production_def)
  with parse only res nomap show ?thesis unfolding Let_def by blast
qed

section \<open>Failures of part compilers\<close>

lemma firstRejected_Some:
  assumes \<open>firstRejected ps = Some (t, err)\<close>
  shows \<open>Rejected t err \<in> set ps \<and> (\<forall>t' err'. Rejected t' err' \<in> set ps \<longrightarrow> t \<le> t')\<close>
  using assms
proof (induction ps arbitrary: t err rule: firstRejected.induct)
  case 1
  then show ?case by simp
next
  case (2 t0 err0 ps)
  show ?case
  proof (cases \<open>firstRejected ps\<close>)
    case None
    have \<open>Rejected t' err' \<notin> set ps\<close> for t' err'
      using None by (induction ps rule: firstRejected.induct) (auto split: option.splits if_splits)
    with None "2.prems" show ?thesis by auto
  next
    case (Some a)
    obtain t1 err1 where a: \<open>a = (t1, err1)\<close> by (cases a)
    from "2.IH" [of t1 err1] Some a
    have in1: \<open>Rejected t1 err1 \<in> set ps\<close>
      and min1: \<open>\<forall>t' err'. Rejected t' err' \<in> set ps \<longrightarrow> t1 \<le> t'\<close>
      by auto
    show ?thesis
    proof (cases \<open>t1 < t0\<close>)
      case True
      with Some a "2.prems" have \<open>t = t1\<close> \<open>err = err1\<close> by auto
      with in1 min1 True show ?thesis by auto
    next
      case False
      with Some a "2.prems" have \<open>t = t0\<close> \<open>err = err0\<close> by auto
      with min1 False show ?thesis by fastforce
    qed
  qed
next
  case (3 ps)
  then show ?case by auto
next
  case (4 t0 v ps)
  then show ?case by auto
qed

lemma firstRejected_None:
  assumes \<open>firstRejected ps = None\<close>
  shows \<open>Rejected t err \<notin> set ps\<close>
  using assms
  by (induction ps rule: firstRejected.induct) (auto split: option.splits if_splits)

lemma promiseAll_rejected:
  assumes \<open>Rejected t0 err0 \<in> set ps\<close>
  shows \<open>\<exists>t err. promiseAll ps = Rejected t err \<and> Rejected t err \<in> set ps \<and>
           (\<forall>t' err'. Rejected t' err' \<in> set ps \<longrightarrow> t \<le> t')\<close>
proof (cases \<open>firstRejected ps\<close>)
  case None
  from firstRejected_None [OF this] assms show ?thesis by blast
next
  case (Some a)
  obtain t err where a: \<open>a = (t, err)\<close> by (cases a)
  from firstRejected_Some [of ps t err] Some a
  show ?thesis by (auto simp: promiseAll_def)
qed

lemma reportsError_rejected:
  assumes \<open>reportsError w source lng filePath\<close>
  shows \<open>\<exists>t err. compileAsPromise w source lng filePath = Rejected t err\<close>
  using assms
  by (auto simp: reportsError_def compileAsPromise_def callTransform_def
      split: option.splits called.splits)

lemma somePartFails_rejected:
  assumes \<open>somePartFails m w d filePath\<close>
  shows \<open>\<exists>t err. Rejected t err \<in>
           set (map (\<lambda>(p, effs, logs). p) (processParts m w opts d filePath i))\<close>
proof -
  from assms consider
    (template) pt where \<open>parts.template d = Some pt\<close>
      \<open>reportsError w (fst (getContent m w pt filePath)) (attr (lang pt)) filePath\<close>
  | (script) pt where \<open>parts.script d = Some pt\<close>
      \<open>reportsError w (fst (getContent m w pt filePath)) (scriptLang m pt) filePath\<close>
  | (style) pt where \<open>pt \<in> set (parts.styles d)\<close>
      \<open>reportsError w (fst (getContent m w pt filePath)) (attr (lang pt)) filePath\<close>
    by (auto simp: somePartFails_def list_ex_iff split: option.splits)
  then show ?thesis
  proof cases
    case template
    from reportsError_rejected [OF template(2)] obtain t err where
      \<open>compileAsPromise w (fst (getContent m w pt filePath)) (attr (lang pt)) filePath
         = Rejected t err\<close> by blast
    then have \<open>fst (processTemplate m w (parts.template d) filePath) = Rejected t err\<close>
      using template(1)
      by (simp add: processTemplate_def thenTemplate_def case_prod_unfold Let_def)
    then show ?thesis
      by (auto simp: processParts_def case_prod_unfold intro!: exI [of _ t] exI [of _ err])
  next
    case script
    from reportsError_rejected [OF script(2)] obtain t err where
      \<open>compileAsPromise w (fst (getContent m w pt filePath)) (scriptLang m pt) filePath
         = Rejected t err\<close> by blast
    then have \<open>fst (processScript m w (parts.script d) filePath) = Rejected t err\<close>
      using script(1)
      by (simp add: processScript_def thenScript_def Let_def case_prod_unfold)
    then show ?thesis
      by (auto simp: processParts_def case_prod_unfold intro!: exI [of _ t] exI [of _ err])
  next
    case style
    from reportsError_rejected [OF style(2)] obtain t err where
      \<open>compileAsPromise w (fst (getContent m w pt filePath)) (attr (lang pt)) filePath
         = Rejected t err\<close> by blast
    then have \<open>fst (processStyle m w opts pt filePath i) = Rejected t err\<close>
      by (simp add: processStyle_def thenStyle_def case_prod_unfold Let_def)
    with style(1) have \<open>Rejected t err \<in> (\<lambda>x. fst (processStyle m w opts x filePath i)) ` set (parts.styles d)\<close>
      by force
    then show ?thesis
      by (auto simp: processParts_def case_prod_unfold image_iff intro!: exI [of _ t] exI [of _ err])
  qed
qed


lemma getContent_no_style:
  \<open>EmitStyle f css \<notin> set (snd (getContent m w pt filePath))\<close>
  by (simp add: getContent_def loadSrc_def Let_def split: option.splits)

lemma codeFrameLog_no_style:
  \<open>(t, EmitStyle f css) \<notin> set (codeFrameLog w source lng filePath)\<close>
  by (simp add: codeFrameLog_def split: option.splits called.splits)

lemma processParts_no_style:
  assumes \<open>x \<in> set (processParts m w opts d filePath i)\<close>
  shows \<open>EmitStyle f css \<notin> set (fst (snd x)) \<and> (t, EmitStyle f css) \<notin> set (snd (snd x))\<close>
  using assms getContent_no_style codeFrameLog_no_style
  by (auto simp: processParts_def processTemplate_def processScript_def processStyle_def
      Let_def case_prod_unfold split: option.splits)

text \<open>
  Claim C8. When the registry transform of some part of the document reports an error,
  the callback receives an error and no module: the error is that of the part compiler
  that was rejected first, the cache is unchanged and no style is emitted, that is, the
  merge has not run.
\<close>

theorem C8_failed_part_rejects_run:
  assumes parse: \<open>parseComponent m document = Inr d\<close>
    and fails: \<open>somePartFails m w d filePath\<close>
  shows \<open>\<exists>t err.
           outcome (compile m w e opts document filePath cache) = CallbackError err \<and>
           Rejected t err \<in>
             set (map (\<lambda>(p, effs, logs). p) (processParts m w opts d filePath (scopeId m filePath))) \<and>
           (\<forall>t' err'.
              Rejected t' err' \<in>
                set (map (\<lambda>(p, effs, logs). p)
                      (processParts m w opts d filePath (scopeId m filePath)))
              \<longrightarrow> t \<le> t') \<and>
           cacheAfter (compile m w e opts document filePath cache) = cache \<and>
           (\<forall>f css. EmitStyle f css \<notin> set (effects (compile m w e opts document filePath cache)))\<close>
proof -
  let ?ps = \<open>processParts m w opts d filePath (scopeId m filePath)\<close>
  let ?promises = \<open>map (\<lambda>(p, effs, logs). p) ?ps\<close>
  from somePartFails_rejected [OF fails] obtain t0 err0 where
    \<open>Rejected t0 err0 \<in> set ?promises\<close> by blast
  from promiseAll_rejected [OF this] obtain t err where
    all: \<open>promiseAll ?promises = Rejected t err\<close>
    and mem: \<open>Rejected t err \<in> set ?promises\<close>
    and first: \<open>\<forall>t' err'. Rejected t' err' \<in> set ?promises \<longrightarrow> t \<le> t'\<close>
    by blast
  have run: \<open>compile m w e opts document filePath cache =
      \<lparr>outcome = CallbackError err, cacheAfter = cache,
       effects = concat (map (\<lambda>(p, effs, logs). effs) ?ps) @
         map snd (sort_key fst (concat (map (\<lambda>(p, effs, logs). logs) ?ps)))\<rparr>\<close>
    using parse all by (simp add: compile_def Let_def)
  have no_style:
    \<open>\<forall>f css. EmitStyle f css \<notin> set (effects (compile m w e opts document filePath cache))\<close>
    using processParts_no_style [of _ m w opts d filePath \<open>scopeId m filePath\<close>]
    by (auto simp: run case_prod_unfold)
  have error: \<open>outcome (compile m w e opts document filePath cache) = CallbackError err\<close>
    and cache: \<open>cacheAfter (compile m w e opts document filePath cache) = cache\<close>
    by (simp_all add: run)
  from error mem first cache no_style show ?thesis by blast
qed


theorem C8_failed_part_rejects_run_witness:
  \<open>(let m = exampleModule False threeLanguages;
        w = exampleWorld Map.empty failingRegistry 1;
        r = compile m w development plainOptions ''<template lang="pug">...'' ''/app/a.vue''
              Map.empty
    in parseComponent m ''<template lang="pug">...'' = Inr threeLanguages \<and>
       somePartFails m w threeLanguages ''/app/a.vue'' \<and>
       outcome r = CallbackError (ExternalError ''unrecognised input'' None) \<and>
       cacheAfter r = Map.empty \<and>
       effects r = [ConsoleError ''> 1 | x =''])\<close>
proof -
  let ?m = \<open>exampleModule False threeLanguages\<close>
  let ?w = \<open>exampleWorld Map.empty failingRegistry 1\<close>
  let ?doc = \<open>''<template lang="pug">...''\<close>
  let ?r = \<open>compile ?m ?w development plainOptions ?doc ''/app/a.vue'' Map.empty\<close>
  have parse: \<open>parseComponent ?m ?doc = Inr threeLanguages\<close>
    by (simp add: exampleModule_def)
  have fails: \<open>somePartFails ?m ?w threeLanguages ''/app/a.vue''\<close>
    by code_simp
  have error: \<open>outcome ?r = CallbackError (ExternalError ''unrecognised input'' None)\<close>
    by code_simp
  have logged: \<open>effects ?r = [ConsoleError ''> 1 | x ='']\<close>
    by code_simp
  from C8_failed_part_rejects_run [OF parse fails, of development plainOptions Map.empty]
  have \<open>cacheAfter ?r = Map.empty\<close> by blast
  with parse fails error logged show ?thesis unfolding Let_def by blast
qed


section \<open>Properties of the source-map builder\<close>

lemma concat_map_filter:
  \<open>concat (map (\<lambda>x. if P x then [f x] else []) xs) = map f (filter P xs)\<close>
  by (induction xs) auto

text \<open>
  Claim C5, as stated, fails: a script line for which the incoming map of the script
  compiler has no original line gets no mapping. Here the script has two lines and the
  incoming map knows the first only.
\<close>

theorem C5_unmapped_line_counterexample:
  \<open>(let m = exampleModule False (scriptOnly (inlinePart ''a''));
        scr = ''a'' @ NL @ ''b'';
        rp = resolve [SetScriptMap (Str scr) (Some [1 \<mapsto> 1])]
    in length (split_lines scr) = 2 \<and>
       generateSourceMap m ''/app/a.vue'' ''<script>...</script>'' rp scr [] =
         Inr \<lparr>sourcesContent = [(''a.vue?2f0a'', ''<script>...</script>'')],
              mappings = [\<lparr>sourceFile = ''a.vue?2f0a'', generated = 2, original = 1\<rparr>],
              hashedFilename = ''a.vue?2f0a''\<rparr>)\<close>
  by code_simp

text \<open>
  When the style is inlined before the script, the builder counts the empty text after
  the last line break of the output as a line: the first script line is the third line of
  the module, and its mapping names the fourth.
\<close>

lemma inlined_style_shifts_script_mappings:
  \<open>(let m = exampleModule False (scriptOnly (inlinePart ''a''));
        inlined = insertStyle m (stringify m ''p{}'');
        rp = resolve [SetScriptMap (Str ''a'') (Some [1 \<mapsto> 1])]
    in generateSourceMap m ''/app/a.vue'' ''<script>...</script>'' rp ''a'' inlined =
         Inr \<lparr>sourcesContent = [(''a.vue?2f0a'', ''<script>...</script>'')],
              mappings = [\<lparr>sourceFile = ''a.vue?2f0a'', generated = 4, original = 1\<rparr>],
              hashedFilename = ''a.vue?2f0a''\<rparr> \<and>
       split_lines (inlined @ wrapScript ''a'' @ optionsBinding) ! 2 = ''a'' \<and>
       split_lines (inlined @ wrapScript ''a'' @ optionsBinding) ! 3 = ''})()'')\<close>
  by code_simp

text \<open>
  Claim C5, amended. Source maps are on, the script resolves to a text that is not empty
  and comes with an incoming map, and nothing precedes the script in the module: the map
  has, in order, one mapping for each script line that the incoming map gives an original
  line, from generated line \<open>ln + 1\<close> (the opening line of the wrapper precedes the
  script) to that original line. The mappings that the template step adds all have, as
  original line, the line of the document at which the template block starts.
\<close>

theorem C5_source_map_lines:
  assumes enabled: \<open>sourceMap opts\<close>
    and script: \<open>resolvedParts.script rp = Str scr\<close> \<open>scr \<noteq> []\<close>
    and incoming: \<open>resolvedParts.inMap rp = Some c\<close>
    and template: \<open>parts.template d = Some pt\<close>
  shows \<open>\<exists>g g'.
           emitScript m opts filePath document rp [] = Inr (wrapScript scr, Some g) \<and>
           map (\<lambda>mp. (generated mp, Some (original mp))) (mappings g) =
             map (\<lambda>ln. (ln + 1, c ln))
               (filter (\<lambda>ln. case c ln of Some ol \<Rightarrow> ol \<noteq> 0 | None \<Rightarrow> False)
                  [1 ..< Suc (length (split_lines scr))]) \<and>
           addTemplateMapping document d output g beforeLines = Inr g' \<and>
           mappings g' = mappings g @
             map (\<lambda>b. \<lparr>sourceFile = hashedFilename g, generated = b,
                       original = length (split_lines (take (start pt) document))\<rparr>)
               [beforeLines ..< length (split_lines output)]\<close>
proof -
  let ?name = \<open>basename m filePath @ ''?'' @ hash m (filePath @ document)\<close>
  let ?keep = \<open>\<lambda>ln. case c ln of Some ol \<Rightarrow> ol \<noteq> 0 | None \<Rightarrow> False\<close>
  let ?entry = \<open>\<lambda>ln. case c ln of
                  Some ol \<Rightarrow> \<lparr>sourceFile = ?name, generated = ln + 1, original = ol\<rparr>
                | None \<Rightarrow> \<lparr>sourceFile = ?name, generated = ln + 1, original = 0\<rparr>\<close>
  let ?g = \<open>\<lparr>sourcesContent = [(?name, document)],
             mappings = map ?entry (filter ?keep [1 ..< Suc (length (split_lines scr))]),
             hashedFilename = ?name\<rparr>\<close>
  let ?added = \<open>\<lambda>ln. if ?keep ln then [?entry ln] else []\<close>
  let ?n = \<open>length (split_lines scr)\<close>
  have \<open>generateSourceMap m filePath document rp scr [] =
      Inr \<lparr>sourcesContent = [(?name, document)],
           mappings = concat (map (\<lambda>index. ?added (Suc index)) [0 ..< ?n]),
           hashedFilename = ?name\<rparr>\<close>
    using incoming
    apply (simp add: generateSourceMap_def Let_def del: upt_Suc)
    apply (rule arg_cong [where f = concat])
    apply (rule map_cong [OF refl])
    apply (auto split: option.splits)
    done
  moreover have \<open>concat (map (\<lambda>index. ?added (Suc index)) [0 ..< ?n]) =
      concat (map ?added (map Suc [0 ..< ?n]))\<close>
    by (simp add: comp_def del: upt_Suc)
  moreover have \<open>map Suc [0 ..< ?n] = [1 ..< Suc ?n]\<close>
    by (simp add: map_Suc_upt del: upt_Suc)
  moreover have \<open>concat (map ?added [1 ..< Suc ?n]) = map ?entry (filter ?keep [1 ..< Suc ?n])\<close>
    by (rule concat_map_filter)
  ultimately have gen: \<open>generateSourceMap m filePath document rp scr [] = Inr ?g\<close>
    by (simp del: upt_Suc)
  have lines: \<open>map (\<lambda>mp. (generated mp, Some (original mp))) (mappings ?g) =
             map (\<lambda>ln. (ln + 1, c ln)) (filter ?keep [1 ..< Suc (length (split_lines scr))])\<close>
    by (auto split: option.splits simp del: upt_Suc)
  have tmpl: \<open>addTemplateMapping document d output ?g beforeLines =
      Inr (?g\<lparr>mappings := mappings ?g @
             map (\<lambda>b. \<lparr>sourceFile = hashedFilename ?g, generated = b,
                       original = length (split_lines (take (start pt) document))\<rparr>)
               [beforeLines ..< length (split_lines output)]\<rparr>)\<close>
    using template by (simp add: addTemplateMapping_def Let_def)
  have emit: \<open>emitScript m opts filePath document rp [] = Inr (wrapScript scr, Some ?g)\<close>
    using enabled script gen by (simp add: emitScript_def)
  from emit lines tmpl show ?thesis
    by (intro exI conjI) (assumption, assumption, assumption, simp)
qed

theorem C5_source_map_lines_witness:
  \<open>(let m = exampleModule False
              (templateAndScript (templateAt 0 ''<p/>'') (inlinePart ''a''));
        d = templateAndScript (templateAt 0 ''<p/>'') (inlinePart ''a'');
        scr = ''a'' @ NL @ ''b'';
        rp = resolve [SetScriptMap (Str scr) (Some [1 \<mapsto> 5, 2 \<mapsto> 6])];
        output = wrapScript scr @ optionsBinding @
          attachTemplate \<lparr>ref = 1, render = ''function(){}'', staticRenderFns = ''[]''\<rparr>
    in sourceMap mapOptions \<and> resolvedParts.script rp = Str scr \<and>
       resolvedParts.inMap rp = Some [1 \<mapsto> 5, 2 \<mapsto> 6] \<and>
       parts.template d = Some (templateAt 0 ''<p/>'') \<and>
       (\<exists>g g'.
          emitScript m mapOptions ''/app/a.vue'' ''<template><p/></template>...'' rp []
            = Inr (wrapScript scr, Some g) \<and>
          map (\<lambda>mp. (generated mp, Some (original mp))) (mappings g)
            = [(2, Some 5), (3, Some 6)] \<and>
          addTemplateMapping ''<template><p/></template>...'' d output g 7 = Inr g' \<and>
          mappings g' = mappings g @
            [\<lparr>sourceFile = hashedFilename g, generated = 7, original = 1\<rparr>,
             \<lparr>sourceFile = hashedFilename g, generated = 8, original = 1\<rparr>]))\<close>
proof -
  let ?tpl = \<open>templateAt 0 ''<p/>''\<close>
  let ?d = \<open>templateAndScript ?tpl (inlinePart ''a'')\<close>
  let ?m = \<open>exampleModule False ?d\<close>
  let ?scr = \<open>''a'' @ NL @ ''b''\<close>
  let ?c = \<open>[1 \<mapsto> 5, 2 \<mapsto> 6] :: inMap\<close>
  let ?rp = \<open>resolve [SetScriptMap (Str ?scr) (Some ?c)]\<close>
  let ?doc = \<open>''<template><p/></template>...''\<close>
  let ?output = \<open>wrapScript ?scr @ optionsBinding @
          attachTemplate \<lparr>ref = 1, render = ''function(){}'', staticRenderFns = ''[]''\<rparr>\<close>
  have enabled: \<open>sourceMap mapOptions\<close>
    by (simp add: mapOptions_def)
  have script: \<open>resolvedParts.script ?rp = Str ?scr\<close> \<open>?scr \<noteq> []\<close>
    by (simp_all add: resolve_def)
  have incoming: \<open>resolvedParts.inMap ?rp = Some ?c\<close>
    by (simp add: resolve_def)
  have template: \<open>parts.template ?d = Some ?tpl\<close>
    by (simp add: templateAndScript_def)
  have script_lines:
    \<open>map (\<lambda>ln. (ln + 1, ?c ln))
       (filter (\<lambda>ln. case ?c ln of Some ol \<Rightarrow> ol \<noteq> 0 | None \<Rightarrow> False)
          [1 ..< Suc (length (split_lines ?scr))]) = [(2, Some 5), (3, Some 6)]\<close>
    by code_simp
  have template_lines: \<open>[7 ..< length (split_lines ?output)] = [7, 8]\<close>
    by code_simp
  have template_line: \<open>length (split_lines (take (start ?tpl) ?doc)) = 1\<close>
    by code_simp
  from C5_source_map_lines [OF enabled script incoming template,
      of ?m \<open>''/app/a.vue''\<close> ?doc ?output 7]
  obtain g g' where g:
    \<open>emitScript ?m mapOptions ''/app/a.vue'' ?doc ?rp [] = Inr (wrapScript ?scr, Some g)\<close>
    \<open>map (\<lambda>mp. (generated mp, Some (original mp))) (mappings g) = [(2, Some 5), (3, Some 6)]\<close>
    \<open>addTemplateMapping ?doc ?d ?output g 7 = Inr g'\<close>
    \<open>mappings g' = mappings g @
       [\<lparr>sourceFile = hashedFilename g, generated = 7, original = 1\<rparr>,
        \<lparr>sourceFile = hashedFilename g, generated = 8, original = 1\<rparr>]\<close>
    unfolding script_lines template_lines template_line by auto
  show ?thesis
    unfolding Let_def
    by (intro conjI exI [of _ g] exI [of _ g']) (fact enabled script(1) incoming template g)+
qed

end
